theory Spec2Isabelle
  imports Complex_Main "HOL-Library.AList"
begin

section \<open>Shared types (backend/src/types/index.ts)\<close>

text \<open>
  JavaScript values that cross the agent's interfaces (\<^verbatim>\<open>any\<close>, \<^verbatim>\<open>Record<string, any>\<close>) are
  JSON values. The agent core never computes with the numbers it carries, so a number is
  an integer here. Strings are byte strings (UTF-8); a \<^verbatim>\<open>Map\<close> is an association list in
  insertion order, which is the order \<^verbatim>\<open>Map.prototype.values()\<close> enumerates.
\<close>

datatype json =
    JNull
  | JBool bool
  | JNum int
  | JStr string
  | JArr "json list"
  | JObj "(string \<times> json) list"

datatype Role = User | Assistant | System | ToolRole

record ToolCall =
  call_id :: string
  call_name :: string
  arguments :: json

record ToolResult =
  result_id :: string
  result_name :: string
  result :: json
  error :: "string option"

record AgentMessage =
  msg_id :: string
  role :: Role
  content :: string
  timestamp :: nat
  toolCalls :: "ToolCall list option"
  toolResults :: "ToolResult list option"

datatype ParamType = PString | PNumber | PBoolean | PObject | PArray

record ToolParameter =
  param_name :: string
  param_type :: ParamType
  param_description :: string
  required :: bool
  enum_values :: "string list option"

record ToolContext =
  workspaceRoot :: "string option"
  currentFile :: "string option"
  userId :: "string option"
  sessionId :: string

text \<open>
  An error object thrown by the model provider or by the runtime. The code reads three
  things of it: \<^verbatim>\<open>error.message\<close>, \<^verbatim>\<open>error.status\<close> and \<^verbatim>\<open>error.error?.code\<close>.
\<close>

record thrown =
  status :: "nat option"
  code :: "string option"
  message :: string

definition Error :: "string \<Rightarrow> thrown" where
  "Error m = \<lparr>status = None, code = None, message = m\<rparr>"

text \<open>
  What the promise of a tool rejects with. \<^verbatim>\<open>execute\<close> is typed \<^verbatim>\<open>Promise<any>\<close> and the
  agent catches the rejection as \<^verbatim>\<open>error: any\<close>, so it is any value: \<^verbatim>\<open>null\<close>,
  \<^verbatim>\<open>undefined\<close>, or a value whose \<^verbatim>\<open>message\<close> property is a text (an \<^verbatim>\<open>Error\<close>) or is
  missing.
\<close>

datatype rejection = RejectedNull | RejectedUndefined | Rejected "string option"

text \<open>
  The world \<open>'w\<close> stands for everything outside the agent object: the file system, the
  network, the clock, the random source. \<^verbatim>\<open>execute(args, context): Promise<any>\<close> either
  resolves (\<open>Inr\<close>) or rejects (\<open>Inl\<close>), and may change the world.
\<close>

record 'w Tool =
  name :: string
  description :: string
  parameters :: "ToolParameter list"
  execute :: "json \<Rightarrow> ToolContext \<Rightarrow> 'w \<Rightarrow> (rejection + json) \<times> 'w"

datatype Provider = OpenAI | Anthropic | Groq | Ollama

record AgentConfig =
  provider :: Provider
  model :: string
  temperature :: "real option"
  maxTokens :: "nat option"
  systemPrompt :: "string option"

record ConversationHistory =
  messages :: "AgentMessage list"
  history_sessionId :: string
  history_userId :: "string option"
  metadata :: "json option"

section \<open>The agent (backend/src/agent/Agent.ts)\<close>

text \<open>
  \<open>aiProvider\<close> is the \<^verbatim>\<open>generateResponse\<close> method of the agent's \<^verbatim>\<open>AIProvider\<close> object: given
  the history and the tool list it resolves with an assistant message or rejects. The
  constructor's look at the API keys of the environment happens before any call modelled
  here.
\<close>

type_synonym 'w ModelAdapter =
  "AgentMessage list \<Rightarrow> 'w Tool list \<Rightarrow> 'w \<Rightarrow> (thrown + AgentMessage) \<times> 'w"

record 'w Agent =
  config :: AgentConfig
  aiProvider :: "'w ModelAdapter"
  tools :: "(string \<times> 'w Tool) list"
  conversations :: "(string \<times> ConversationHistory) list"

definition new_Agent :: "AgentConfig \<Rightarrow> 'w ModelAdapter \<Rightarrow> 'w Agent" where
  "new_Agent cfg gen = \<lparr>config = cfg, aiProvider = gen, tools = [], conversations = []\<rparr>"

definition registerTool :: "'w Tool \<Rightarrow> 'w Agent \<Rightarrow> 'w Agent" where
  "registerTool tool ag = ag\<lparr>tools := AList.update (name tool) tool (tools ag)\<rparr>"

definition registerTools :: "'w Tool list \<Rightarrow> 'w Agent \<Rightarrow> 'w Agent" where
  "registerTools ts ag = fold registerTool ts ag"

text \<open>\<^verbatim>\<open>this.tools.get(name)\<close> and \<^verbatim>\<open>Array.from(this.tools.values())\<close>.\<close>

definition getTool :: "'w Agent \<Rightarrow> string \<Rightarrow> 'w Tool option" where
  "getTool ag n = map_of (tools ag) n"

definition allTools :: "'w Agent \<Rightarrow> 'w Tool list" where
  "allTools ag = map snd (tools ag)"

text \<open>Every entry of the registry is stored under its tool's own name.\<close>

definition keyed :: "(string \<times> 'w Tool) list \<Rightarrow> bool" where
  "keyed al = list_all (\<lambda>e. fst e = name (snd e)) al"

subsection \<open>Runtime services\<close>

text \<open>
  The library calls of the agent: \<^verbatim>\<open>nanoid()\<close>, \<^verbatim>\<open>Date.now()\<close>, \<^verbatim>\<open>JSON.stringify\<close> and
  \<^verbatim>\<open>JSON.parse\<close> (which throws a \<^verbatim>\<open>SyntaxError\<close> on malformed text). Logging has no
  effect on any result and is left out.
\<close>

record 'w Runtime =
  nanoid :: "'w \<Rightarrow> string \<times> 'w"
  now :: "'w \<Rightarrow> nat \<times> 'w"
  stringify :: "json \<Rightarrow> string"
  parse :: "string \<Rightarrow> thrown + json"

text \<open>
  The status callback \<^verbatim>\<open>(status: string) => void\<close> (the transport emits a socket event):
  it acts on the world and gives nothing back.
\<close>

type_synonym 'w StatusCallback = "string \<Rightarrow> 'w \<Rightarrow> 'w"

subsection \<open>executeTool\<close>

text \<open>The UTF-8 bytes of the wrench sign that starts a status line.\<close>

definition wrench :: string where
  "wrench = [CHR 0xF0, CHR 0x9F, CHR 0x94, CHR 0xA7]"

definition notFoundText :: "string \<Rightarrow> string" where
  "notFoundText n = ''Tool '' @ [CHR 0x27] @ n @ [CHR 0x27] @ '' not found''"

definition statusText :: "'w Tool \<Rightarrow> ToolCall \<Rightarrow> string" where
  "statusText tool toolCall =
     wrench @ '' Executing: ''
       @ (if description tool \<noteq> [] then description tool else call_name toolCall) @ ''...''"

definition sendStatus :: "'w StatusCallback option \<Rightarrow> 'w Tool \<Rightarrow> ToolCall \<Rightarrow> 'w \<Rightarrow> 'w" where
  "sendStatus statusCallback tool toolCall w =
     (case statusCallback of
        Some cb \<Rightarrow> cb (statusText tool toolCall) w
      | None \<Rightarrow> w)"

text \<open>
  \<^verbatim>\<open>error.message\<close> in the \<^verbatim>\<open>catch\<close> block of \<^verbatim>\<open>executeTool\<close>: reading a property of
  \<^verbatim>\<open>null\<close> or \<^verbatim>\<open>undefined\<close> throws a \<^verbatim>\<open>TypeError\<close>, which nothing around it catches.
\<close>

definition cannotRead :: "string \<Rightarrow> string \<Rightarrow> thrown" where
  "cannotRead what prop =
     Error (''Cannot read properties of '' @ what @ '' (reading ''
              @ [CHR 0x27] @ prop @ [CHR 0x27] @ '')'')"

definition messageOf :: "rejection \<Rightarrow> thrown + string option" where
  "messageOf err =
     (case err of
        RejectedNull \<Rightarrow> Inl (cannotRead ''null'' ''message'')
      | RejectedUndefined \<Rightarrow> Inl (cannotRead ''undefined'' ''message'')
      | Rejected m \<Rightarrow> Inr m)"

definition executeTool ::
  "'w Agent \<Rightarrow> ToolCall \<Rightarrow> ToolContext \<Rightarrow> 'w StatusCallback option \<Rightarrow> 'w
     \<Rightarrow> (thrown + ToolResult) \<times> 'w" where
  "executeTool ag toolCall ctx statusCallback w =
     (case getTool ag (call_name toolCall) of
        None \<Rightarrow>
          (Inr \<lparr>result_id = call_id toolCall, result_name = call_name toolCall, result = JNull,
                error = Some (notFoundText (call_name toolCall))\<rparr>, w)
      | Some tool \<Rightarrow>
          (case execute tool (arguments toolCall) ctx (sendStatus statusCallback tool toolCall w) of
             (Inr res, w') \<Rightarrow>
               (Inr \<lparr>result_id = call_id toolCall, result_name = call_name toolCall, result = res,
                     error = None\<rparr>, w')
           | (Inl err, w') \<Rightarrow>
               (case messageOf err of
                  Inl typeError \<Rightarrow> (Inl typeError, w')
                | Inr m \<Rightarrow>
                    (Inr \<lparr>result_id = call_id toolCall, result_name = call_name toolCall,
                          result = JNull, error = m\<rparr>, w'))))"

text \<open>
  The first \<^verbatim>\<open>for\<close> loop of a tool round: one awaited \<^verbatim>\<open>executeTool\<close> per request. An
  \<^verbatim>\<open>executeTool\<close> that throws ends the loop, and the round.
\<close>

fun executeTools ::
  "'w Agent \<Rightarrow> ToolContext \<Rightarrow> 'w StatusCallback option \<Rightarrow> ToolCall list \<Rightarrow> 'w
     \<Rightarrow> (thrown + ToolResult list) \<times> 'w" where
  "executeTools ag ctx statusCallback [] w = (Inr [], w)"
| "executeTools ag ctx statusCallback (toolCall # rest) w =
     (case executeTool ag toolCall ctx statusCallback w of
        (Inl err, w1) \<Rightarrow> (Inl err, w1)
      | (Inr res, w1) \<Rightarrow>
          (case executeTools ag ctx statusCallback rest w1 of
             (Inl err, w2) \<Rightarrow> (Inl err, w2)
           | (Inr results, w2) \<Rightarrow> (Inr (res # results), w2)))"

text \<open>
  The tool-role message built for one result. \<^verbatim>\<open>toolResult.error || toolResult.result\<close> takes
  the error unless it is absent or the empty string.
\<close>

definition toolResultContent :: "'w Runtime \<Rightarrow> ToolResult \<Rightarrow> string" where
  "toolResultContent rt r =
     (case result r of
        JStr s \<Rightarrow> s
      | _ \<Rightarrow> stringify rt
               (case error r of
                  None \<Rightarrow> result r
                | Some e \<Rightarrow> if e \<noteq> [] then JStr e else result r))"

definition toolResultMessage :: "'w Runtime \<Rightarrow> ToolResult \<Rightarrow> 'w \<Rightarrow> AgentMessage \<times> 'w" where
  "toolResultMessage rt r w =
     (case now rt w of
        (t, w') \<Rightarrow>
          (\<lparr>msg_id = result_id r, role = ToolRole, content = toolResultContent rt r,
            timestamp = t, toolCalls = None, toolResults = Some [r]\<rparr>, w'))"

text \<open>The second \<^verbatim>\<open>for\<close> loop of a tool round.\<close>

fun toolResultMessages :: "'w Runtime \<Rightarrow> ToolResult list \<Rightarrow> 'w \<Rightarrow> AgentMessage list \<times> 'w" where
  "toolResultMessages rt [] w = ([], w)"
| "toolResultMessages rt (r # rest) w =
     (case toolResultMessage rt r w of
        (m, w1) \<Rightarrow>
          (case toolResultMessages rt rest w1 of
             (ms, w2) \<Rightarrow> (m # ms, w2)))"

subsection \<open>processMessage\<close>

definition maxIterations :: nat where
  "maxIterations = 20"

definition limitText :: string where
  "limitText = ''I apologize, but I reached the maximum number of processing steps. Please try rephrasing your request.''"

text \<open>
  \<^verbatim>\<open>response.toolCalls && response.toolCalls.length > 0\<close> holds exactly when the list below
  is not empty.
\<close>

definition requested :: "AgentMessage \<Rightarrow> ToolCall list" where
  "requested m = (case toolCalls m of None \<Rightarrow> [] | Some cs \<Rightarrow> cs)"

text \<open>A reply of the model adapter that is a message carrying at least one tool request.\<close>

definition requestsTools :: "thrown + AgentMessage \<Rightarrow> bool" where
  "requestsTools r = (case r of Inl err \<Rightarrow> False | Inr m \<Rightarrow> requested m \<noteq> [])"

text \<open>
  One pass through the body of the \<^verbatim>\<open>while\<close> loop. \<open>reply\<close> is what
  \<^verbatim>\<open>generateResponse\<close> gave in this round; \<open>step\<close> says whether the body ended in
  \<^verbatim>\<open>continue\<close>, in \<^verbatim>\<open>return response\<close>, or in an exception: the rejection of the model
  call, or the \<^verbatim>\<open>TypeError\<close> of an \<^verbatim>\<open>executeTool\<close>, raised after the reply was pushed
  and before any tool-role message is.
\<close>

datatype Step = Continue | Return "thrown + AgentMessage"

record 'w Round =
  step :: Step
  reply :: "thrown + AgentMessage"
  round_messages :: "AgentMessage list"
  round_world :: 'w

definition processRound ::
  "'w Runtime \<Rightarrow> 'w Agent \<Rightarrow> ToolContext \<Rightarrow> 'w StatusCallback option \<Rightarrow> AgentMessage list \<Rightarrow> 'w
     \<Rightarrow> 'w Round" where
  "processRound rt ag ctx statusCallback msgs w =
     (case aiProvider ag msgs (allTools ag) w of
        (Inl err, w1) \<Rightarrow>
          \<lparr>step = Return (Inl err), reply = Inl err, round_messages = msgs, round_world = w1\<rparr>
      | (Inr response, w1) \<Rightarrow>
          (if requested response \<noteq> [] then
             (case executeTools ag ctx statusCallback (requested response) w1 of
                (Inl err, w2) \<Rightarrow>
                  \<lparr>step = Return (Inl err), reply = Inr response,
                   round_messages = msgs @ [response], round_world = w2\<rparr>
              | (Inr results, w2) \<Rightarrow>
                  (case toolResultMessages rt results w2 of
                     (toolMsgs, w3) \<Rightarrow>
                       \<lparr>step = Continue, reply = Inr response,
                        round_messages = msgs @ [response] @ toolMsgs, round_world = w3\<rparr>))
           else
             \<lparr>step = Return (Inr response), reply = Inr response,
              round_messages = msgs @ [response], round_world = w1\<rparr>))"

text \<open>
  The \<^verbatim>\<open>while (iterations < maxIterations)\<close> loop and the statement after it. \<open>replies\<close>
  lists what the model adapter gave, one entry per call of \<^verbatim>\<open>generateResponse\<close>, in order.
\<close>

record 'w Run =
  outcome :: "thrown + AgentMessage"
  replies :: "(thrown + AgentMessage) list"
  run_messages :: "AgentMessage list"
  run_world :: 'w

function processLoop ::
  "'w Runtime \<Rightarrow> 'w Agent \<Rightarrow> ToolContext \<Rightarrow> 'w StatusCallback option \<Rightarrow> AgentMessage list \<Rightarrow> nat \<Rightarrow> 'w
     \<Rightarrow> 'w Run" where
  "processLoop rt ag ctx statusCallback msgs iterations w =
     (if iterations < maxIterations then
        (let r = processRound rt ag ctx statusCallback msgs w in
           case step r of
             Return res \<Rightarrow>
               \<lparr>outcome = res, replies = [reply r],
                run_messages = round_messages r, run_world = round_world r\<rparr>
           | Continue \<Rightarrow>
               (let run = processLoop rt ag ctx statusCallback
                            (round_messages r) (Suc iterations) (round_world r)
                in run\<lparr>replies := reply r # replies run\<rparr>))
      else
        (case nanoid rt w of
           (i, w1) \<Rightarrow>
             (case now rt w1 of
                (t, w2) \<Rightarrow>
                  \<lparr>outcome = Inr \<lparr>msg_id = i, role = Assistant, content = limitText, timestamp = t,
                                  toolCalls = None, toolResults = None\<rparr>,
                   replies = [], run_messages = msgs, run_world = w2\<rparr>)))"
  by pat_completeness auto
termination
  by (relation "measure (\<lambda>(rt, ag, ctx, statusCallback, msgs, iterations, w). maxIterations - iterations)")
    auto

declare processLoop.simps [simp del]

definition getOrCreateConversation ::
  "string \<Rightarrow> string option \<Rightarrow> 'w Agent \<Rightarrow> ConversationHistory \<times> 'w Agent" where
  "getOrCreateConversation sid uid ag =
     (case map_of (conversations ag) sid of
        Some h \<Rightarrow> (h, ag)
      | None \<Rightarrow>
          (\<lparr>messages = [], history_sessionId = sid, history_userId = uid, metadata = None\<rparr>,
           ag\<lparr>conversations :=
                AList.update sid
                  \<lparr>messages = [], history_sessionId = sid, history_userId = uid, metadata = None\<rparr>
                  (conversations ag)\<rparr>))"

definition getConversation :: "'w Agent \<Rightarrow> string \<Rightarrow> ConversationHistory option" where
  "getConversation ag sid = map_of (conversations ag) sid"

definition clearConversation :: "string \<Rightarrow> 'w Agent \<Rightarrow> 'w Agent" where
  "clearConversation sid ag = ag\<lparr>conversations := AList.delete sid (conversations ag)\<rparr>"

definition clearAllConversations :: "'w Agent \<Rightarrow> 'w Agent" where
  "clearAllConversations ag = ag\<lparr>conversations := []\<rparr>"

text \<open>\<^verbatim>\<open>sessionId || nanoid()\<close>: an absent or empty session id is replaced by a fresh one.\<close>

definition resolveSessionId :: "'w Runtime \<Rightarrow> string option \<Rightarrow> 'w \<Rightarrow> string \<times> 'w" where
  "resolveSessionId rt sid w =
     (case sid of
        None \<Rightarrow> nanoid rt w
      | Some s \<Rightarrow> if s \<noteq> [] then (s, w) else nanoid rt w)"

text \<open>
  What a call of \<^verbatim>\<open>processMessage\<close> leaves behind: the message it resolves with or the
  error it rejects with, the replies of the model adapter it consumed, the agent (whose
  session history was appended to in place) and the world.
\<close>

record 'w Completion =
  returned :: "thrown + AgentMessage"
  modelReplies :: "(thrown + AgentMessage) list"
  agent_after :: "'w Agent"
  world_after :: 'w

definition processMessage ::
  "'w Runtime \<Rightarrow> 'w Agent \<Rightarrow> string \<Rightarrow> ToolContext \<Rightarrow> string option \<Rightarrow> 'w StatusCallback option \<Rightarrow> 'w
     \<Rightarrow> 'w Completion" where
  "processMessage rt ag userMessage ctx sid0 statusCallback w =
     (case resolveSessionId rt sid0 w of
        (sid, w0) \<Rightarrow>
          (case getOrCreateConversation sid (userId ctx) ag of
             (history, ag1) \<Rightarrow>
               (case nanoid rt w0 of
                  (i, w1) \<Rightarrow>
                    (case now rt w1 of
                       (t, w2) \<Rightarrow>
                         (let userMsg = \<lparr>msg_id = i, role = User, content = userMessage,
                                          timestamp = t, toolCalls = None, toolResults = None\<rparr>;
                              run = processLoop rt ag1 ctx statusCallback
                                      (messages history @ [userMsg]) 0 w2
                          in \<lparr>returned = outcome run,
                              modelReplies = replies run,
                              agent_after =
                                ag1\<lparr>conversations :=
                                      AList.update sid (history\<lparr>messages := run_messages run\<rparr>)
                                        (conversations ag1)\<rparr>,
                              world_after = run_world run\<rparr>)))))"

subsection \<open>Correlation of tool-role messages\<close>

text \<open>
  A history is correlated when every assistant message is followed by exactly one
  tool-role message per request it carries, in the order of the requests and under the
  requests' identifiers, and tool-role messages occur nowhere else. \<open>pending\<close> holds
  the identifiers still to be answered.
\<close>

fun correlated :: "string list \<Rightarrow> AgentMessage list \<Rightarrow> bool" where
  "correlated pending [] = (pending = [])"
| "correlated pending (m # ms) =
     (if role m = ToolRole then
        (case pending of
           [] \<Rightarrow> False
         | p # ps \<Rightarrow> msg_id m = p \<and> correlated ps ms)
      else
        pending = []
          \<and> correlated (if role m = Assistant then map call_id (requested m) else []) ms)"

definition storeCorrelated :: "'w Agent \<Rightarrow> bool" where
  "storeCorrelated ag = list_all (\<lambda>e. correlated [] (messages (snd e))) (conversations ag)"

text \<open>
  The registered tools keep to the tool contract when none of them ever rejects with
  \<^verbatim>\<open>null\<close> or \<^verbatim>\<open>undefined\<close>.
\<close>

definition rejectWithValues :: "'w Agent \<Rightarrow> bool" where
  "rejectWithValues ag =
     (\<forall>n tool args ctx w. getTool ag n = Some tool \<longrightarrow>
        fst (execute tool args ctx w) \<noteq> Inl RejectedNull
        \<and> fst (execute tool args ctx w) \<noteq> Inl RejectedUndefined)"

section \<open>The model adapter (AIProvider)\<close>

text \<open>
  The repository holds two copies of \<^verbatim>\<open>AIProvider\<close>. The later one (with cost tracking,
  array item types and the Groq retry) is modelled in full; of the earlier one
  (backend/src/agent/AIProvider.ts) the Groq variant, which differs, is modelled as
  \<open>generateGroqResponse_v1\<close>.
\<close>

subsection \<open>Wire formats of the providers\<close>

text \<open>Requests of the OpenAI-style chat completion API (OpenAI and Groq).\<close>

record WireFunction =
  fn_name :: string
  fn_arguments :: string

record WireToolCall =
  wire_id :: string
  wire_type :: string
  wire_function :: WireFunction

record ChatMessage =
  chat_role :: string
  chat_content :: string
  tool_call_id :: "string option"
  tool_calls :: "WireToolCall list option"

record PropDef =
  prop_type :: string
  prop_description :: string
  prop_enum :: "string list option"
  prop_items :: "string option"

text \<open>
  The description of one tool; its content is the same in the \<^verbatim>\<open>function\<close> envelope of
  OpenAI and Groq and in the \<^verbatim>\<open>input_schema\<close> envelope of Anthropic.
\<close>

record FunctionDef =
  def_name :: string
  def_description :: string
  def_properties :: "(string \<times> PropDef) list"
  def_required :: "string list"

record ChatRequest =
  req_model :: string
  req_messages :: "ChatMessage list"
  req_tools :: "FunctionDef list option"
  req_temperature :: real
  req_max_tokens :: nat

text \<open>Responses of OpenAI: every field the code reads is mandatory but the content.\<close>

record OAFunction =
  oa_name :: string
  oa_arguments :: string

record OAToolCall =
  oa_id :: string
  oa_function :: OAFunction

record OAMessage =
  oa_content :: "string option"
  oa_tool_calls :: "OAToolCall list option"

record OAUsage =
  prompt_tokens :: "nat option"
  completion_tokens :: "nat option"

record OACompletion =
  oa_completion_id :: string
  oa_choices :: "OAMessage list"
  oa_usage :: "OAUsage option"

text \<open>Responses of Groq: the code defends against every missing field.\<close>

record GFunction =
  g_name :: "string option"
  g_arguments :: "string option"

record GToolCall =
  g_id :: "string option"
  g_function :: "GFunction option"

record GMessage =
  g_content :: "string option"
  g_tool_calls :: "GToolCall list option"

record GCompletion =
  g_completion_id :: "string option"
  g_choices :: "GMessage list"

text \<open>
  Anthropic. A message parameter of the API holds either plain text or content blocks,
  among them \<^verbatim>\<open>tool_use\<close> and \<^verbatim>\<open>tool_result\<close> blocks; a response is a list of blocks.
\<close>

datatype ABlockParam =
    TextParam string
  | ToolUseParam string string json
  | ToolResultParam string string

datatype AContent = PlainText string | Blocks "ABlockParam list"

record AMessage =
  a_role :: string
  a_content :: AContent

record ARequest =
  a_model :: string
  a_max_tokens :: nat
  a_system :: string
  a_messages :: "AMessage list"
  a_tools :: "FunctionDef list option"
  a_temperature :: real

datatype ABlock = TextBlock string | ToolUseBlock string string json | OtherBlock

record AResponse =
  a_response_id :: string
  a_blocks :: "ABlock list"

text \<open>Ollama, reached over HTTP.\<close>

record OllamaRequest =
  o_model :: string
  o_messages :: "(string \<times> string) list"
  o_stream :: bool
  o_temperature :: real

text \<open>
  The body of the HTTP answer, read as \<^verbatim>\<open>response.data.message.content\<close>: the message
  may be missing, and so may its content.
\<close>

record OllamaMessage =
  o_content :: "string option"

record OllamaResponse =
  data_message :: "OllamaMessage option"

text \<open>
  The provider object with its collaborators: the SDK clients (present only for the
  configured provider), \<^verbatim>\<open>axios.post\<close>, the cost tracker, the environment variable read
  by the Ollama variant, and the fixed text of \<^verbatim>\<open>getDefaultSystemPrompt()\<close>.
\<close>

record 'w AIProvider =
  ai_config :: AgentConfig
  openai :: "(ChatRequest \<Rightarrow> 'w \<Rightarrow> (thrown + OACompletion) \<times> 'w) option"
  anthropic :: "(ARequest \<Rightarrow> 'w \<Rightarrow> (thrown + AResponse) \<times> 'w) option"
  groq :: "(ChatRequest \<Rightarrow> 'w \<Rightarrow> (thrown + GCompletion) \<times> 'w) option"
  axios_post :: "string \<Rightarrow> OllamaRequest \<Rightarrow> 'w \<Rightarrow> (thrown + OllamaResponse) \<times> 'w"
  trackRequest :: "string \<Rightarrow> string \<Rightarrow> nat \<Rightarrow> nat \<Rightarrow> string \<Rightarrow> 'w \<Rightarrow> 'w"
  OLLAMA_BASE_URL :: "string option"
  defaultSystemPrompt :: string

subsection \<open>Small JavaScript idioms\<close>

text \<open>\<^verbatim>\<open>s || d\<close> on an optional string: the default replaces an absent or empty one.\<close>

definition orElse :: "string option \<Rightarrow> string \<Rightarrow> string" where
  "orElse s d = (case s of None \<Rightarrow> d | Some x \<Rightarrow> if x \<noteq> [] then x else d)"

definition orElseNat :: "nat option \<Rightarrow> nat \<Rightarrow> nat" where
  "orElseNat n d = (case n of None \<Rightarrow> d | Some x \<Rightarrow> if x \<noteq> 0 then x else d)"

definition orElseReal :: "real option \<Rightarrow> real \<Rightarrow> real" where
  "orElseReal r d = (case r of None \<Rightarrow> d | Some x \<Rightarrow> if x \<noteq> 0 then x else d)"

definition digit :: "nat \<Rightarrow> char" where
  "digit d = ''0123456789'' ! d"

function decimal :: "nat \<Rightarrow> string" where
  "decimal n = (if n < 10 then [digit n] else decimal (n div 10) @ [digit (n mod 10)])"
  by pat_completeness auto
termination
  by (relation "measure (\<lambda>n. n)") auto

declare decimal.simps [simp del]

text \<open>\<^verbatim>\<open>id || `prefix${Date.now()}`\<close>: the clock is read only when the id is missing.\<close>

definition idOr :: "'w Runtime \<Rightarrow> string option \<Rightarrow> string \<Rightarrow> 'w \<Rightarrow> string \<times> 'w" where
  "idOr rt s prefix w =
     (case s of
        None \<Rightarrow> (case now rt w of (t, w') \<Rightarrow> (prefix @ decimal t, w'))
      | Some x \<Rightarrow>
          if x \<noteq> [] then (x, w)
          else (case now rt w of (t, w') \<Rightarrow> (prefix @ decimal t, w')))"

text \<open>Reading \<^verbatim>\<open>.message\<close> of \<^verbatim>\<open>choices[0]\<close> when there is no choice.\<close>

definition noChoice :: thrown where
  "noChoice = Error (''Cannot read properties of undefined (reading ''
                       @ [CHR 0x27] @ ''message'' @ [CHR 0x27] @ '')'')"

definition noContent :: thrown where
  "noContent = Error (''Cannot read properties of undefined (reading ''
                       @ [CHR 0x27] @ ''content'' @ [CHR 0x27] @ '')'')"

definition roleName :: "Role \<Rightarrow> string" where
  "roleName r = (case r of User \<Rightarrow> ''user'' | Assistant \<Rightarrow> ''assistant''
                 | System \<Rightarrow> ''system'' | ToolRole \<Rightarrow> ''tool'')"

definition typeName :: "ParamType \<Rightarrow> string" where
  "typeName t = (case t of PString \<Rightarrow> ''string'' | PNumber \<Rightarrow> ''number''
                 | PBoolean \<Rightarrow> ''boolean'' | PObject \<Rightarrow> ''object'' | PArray \<Rightarrow> ''array'')"

subsection \<open>Building the request\<close>

definition wireToolCall :: "'w Runtime \<Rightarrow> ToolCall \<Rightarrow> WireToolCall" where
  "wireToolCall rt tc =
     \<lparr>wire_id = call_id tc, wire_type = ''function'',
      wire_function = \<lparr>fn_name = call_name tc, fn_arguments = stringify rt (arguments tc)\<rparr>\<rparr>"

definition chatMessage :: "'w Runtime \<Rightarrow> AgentMessage \<Rightarrow> ChatMessage" where
  "chatMessage rt m =
     (if role m = ToolRole then
        \<lparr>chat_role = ''tool'', chat_content = content m, tool_call_id = Some (msg_id m),
         tool_calls = None\<rparr>
      else
        \<lparr>chat_role = roleName (role m), chat_content = content m, tool_call_id = None,
         tool_calls = (case toolCalls m of
                         None \<Rightarrow> None
                       | Some cs \<Rightarrow> Some (map (wireToolCall rt) cs))\<rparr>)"

text \<open>\<^verbatim>\<open>formattedMessages\<close> of the OpenAI and Groq variants (the same code in both).\<close>

definition chatFormattedMessages :: "'w Runtime \<Rightarrow> string \<Rightarrow> AgentMessage list \<Rightarrow> ChatMessage list" where
  "chatFormattedMessages rt systemMessage msgs =
     \<lparr>chat_role = ''system'', chat_content = systemMessage, tool_call_id = None, tool_calls = None\<rparr>
       # map (chatMessage rt) msgs"

text \<open>\<^verbatim>\<open>formattedMessages\<close> of the Anthropic variant: role and content, nothing else.\<close>

definition anthropicFormattedMessages :: "AgentMessage list \<Rightarrow> AMessage list" where
  "anthropicFormattedMessages msgs =
     map (\<lambda>m. \<lparr>a_role = (if role m = Assistant then ''assistant'' else ''user''),
                a_content = PlainText (content m)\<rparr>) msgs"

definition ollamaFormattedMessages :: "string \<Rightarrow> AgentMessage list \<Rightarrow> (string \<times> string) list" where
  "ollamaFormattedMessages systemMessage msgs =
     (''system'', systemMessage) # map (\<lambda>m. (roleName (role m), content m)) msgs"

definition propDef :: "ToolParameter \<Rightarrow> PropDef" where
  "propDef p =
     \<lparr>prop_type = typeName (param_type p), prop_description = param_description p,
      prop_enum = enum_values p,
      prop_items = (if param_type p = PArray then Some ''string'' else None)\<rparr>"

text \<open>
  \<^verbatim>\<open>Object.fromEntries\<close>: a later entry replaces an earlier one of the same key; the
  object lists its array-index keys first, in ascending order, then the other keys in
  the order of their first insertion.
\<close>

definition numeric :: "string \<Rightarrow> nat" where
  "numeric s = foldl (\<lambda>n c. 10 * n + (of_char c - 48)) 0 s"

definition isArrayIndex :: "string \<Rightarrow> bool" where
  "isArrayIndex s =
     (s \<noteq> [] \<and> list_all (\<lambda>c. c \<in> set ''0123456789'') s
      \<and> (s = ''0'' \<or> hd s \<noteq> CHR ''0'') \<and> numeric s < 4294967295)"

definition fromEntries :: "(string \<times> 'a) list \<Rightarrow> (string \<times> 'a) list" where
  "fromEntries es =
     (let al = fold (\<lambda>e. AList.update (fst e) (snd e)) es [] in
        sort_key (\<lambda>e. numeric (fst e)) (filter (\<lambda>e. isArrayIndex (fst e)) al)
          @ filter (\<lambda>e. \<not> isArrayIndex (fst e)) al)"

definition toolDefinition :: "'w Tool \<Rightarrow> FunctionDef" where
  "toolDefinition tool =
     \<lparr>def_name = name tool, def_description = description tool,
      def_properties = fromEntries (map (\<lambda>p. (param_name p, propDef p)) (parameters tool)),
      def_required = map param_name (filter required (parameters tool))\<rparr>"

definition offeredTools :: "'w Tool list \<Rightarrow> FunctionDef list option" where
  "offeredTools ts = (if ts \<noteq> [] then Some (map toolDefinition ts) else None)"

definition chatRequest ::
  "AgentConfig \<Rightarrow> ChatMessage list \<Rightarrow> FunctionDef list option \<Rightarrow> ChatRequest" where
  "chatRequest cfg formatted defs =
     \<lparr>req_model = model cfg, req_messages = formatted, req_tools = defs,
      req_temperature = orElseReal (temperature cfg) (7 / 10),
      req_max_tokens = orElseNat (maxTokens cfg) 2000\<rparr>"

subsection \<open>generateOpenAIResponse\<close>

text \<open>
  \<^verbatim>\<open>message.tool_calls.map(tc => ({..., arguments: JSON.parse(tc.function.arguments)}))\<close>:
  a \<^verbatim>\<open>SyntaxError\<close> of \<^verbatim>\<open>JSON.parse\<close> leaves the \<^verbatim>\<open>map\<close> and the whole function.
\<close>

fun parseOpenAICalls :: "'w Runtime \<Rightarrow> OAToolCall list \<Rightarrow> thrown + ToolCall list" where
  "parseOpenAICalls rt [] = Inr []"
| "parseOpenAICalls rt (tc # rest) =
     (case parse rt (oa_arguments (oa_function tc)) of
        Inl err \<Rightarrow> Inl err
      | Inr args \<Rightarrow>
          (case parseOpenAICalls rt rest of
             Inl err \<Rightarrow> Inl err
           | Inr calls \<Rightarrow>
               Inr (\<lparr>call_id = oa_id tc, call_name = oa_name (oa_function tc), arguments = args\<rparr>
                      # calls)))"

text \<open>\<^verbatim>\<open>messages[messages.length - 1]?.content || 'API call'\<close>.\<close>

definition lastContent :: "AgentMessage list \<Rightarrow> string" where
  "lastContent msgs = (if msgs = [] then ''API call'' else orElse (Some (content (last msgs))) ''API call'')"

definition generateOpenAIResponse ::
  "'w Runtime \<Rightarrow> 'w AIProvider \<Rightarrow> AgentMessage list \<Rightarrow> 'w Tool list \<Rightarrow> string \<Rightarrow> 'w
     \<Rightarrow> (thrown + AgentMessage) \<times> 'w" where
  "generateOpenAIResponse rt p msgs ts systemMessage w =
     (case openai p of
        None \<Rightarrow> (Inl (Error ''OpenAI not initialized''), w)
      | Some create \<Rightarrow>
          (case create (chatRequest (ai_config p) (chatFormattedMessages rt systemMessage msgs)
                          (offeredTools ts)) w of
             (Inl err, w1) \<Rightarrow> (Inl err, w1)
           | (Inr response, w1) \<Rightarrow>
               (let w2 = (case oa_usage response of
                            None \<Rightarrow> w1
                          | Some u \<Rightarrow>
                              trackRequest p ''openai'' (model (ai_config p))
                                (orElseNat (prompt_tokens u) 0) (orElseNat (completion_tokens u) 0)
                                (lastContent msgs) w1)
                in case oa_choices response of
                     [] \<Rightarrow> (Inl noChoice, w2)
                   | msg # others \<Rightarrow>
                       (case now rt w2 of
                          (t, w3) \<Rightarrow>
                            (case oa_tool_calls msg of
                               Some (tc # tcs) \<Rightarrow>
                                 (case parseOpenAICalls rt (tc # tcs) of
                                    Inl err \<Rightarrow> (Inl err, w3)
                                  | Inr calls \<Rightarrow>
                                      (Inr \<lparr>msg_id = oa_completion_id response, role = Assistant,
                                            content = orElse (oa_content msg) [], timestamp = t,
                                            toolCalls = Some calls, toolResults = None\<rparr>, w3))
                             | _ \<Rightarrow>
                                 (Inr \<lparr>msg_id = oa_completion_id response, role = Assistant,
                                       content = orElse (oa_content msg) [], timestamp = t,
                                       toolCalls = None, toolResults = None\<rparr>, w3))))))"

subsection \<open>generateAnthropicResponse\<close>

text \<open>One step of the loop over \<^verbatim>\<open>response.content\<close>.\<close>

definition addBlock :: "ABlock \<Rightarrow> AgentMessage \<Rightarrow> AgentMessage" where
  "addBlock block m =
     (case block of
        TextBlock txt \<Rightarrow> m\<lparr>content := content m @ txt\<rparr>
      | ToolUseBlock i n input \<Rightarrow>
          m\<lparr>toolCalls := Some (requested m @ [\<lparr>call_id = i, call_name = n, arguments = input\<rparr>])\<rparr>
      | OtherBlock \<Rightarrow> m)"

definition anthropicRequest ::
  "AgentConfig \<Rightarrow> string \<Rightarrow> AgentMessage list \<Rightarrow> 'w Tool list \<Rightarrow> ARequest" where
  "anthropicRequest cfg systemMessage msgs ts =
     \<lparr>a_model = model cfg, a_max_tokens = orElseNat (maxTokens cfg) 2000, a_system = systemMessage,
      a_messages = anthropicFormattedMessages msgs, a_tools = offeredTools ts,
      a_temperature = orElseReal (temperature cfg) (7 / 10)\<rparr>"

definition generateAnthropicResponse ::
  "'w Runtime \<Rightarrow> 'w AIProvider \<Rightarrow> AgentMessage list \<Rightarrow> 'w Tool list \<Rightarrow> string \<Rightarrow> 'w
     \<Rightarrow> (thrown + AgentMessage) \<times> 'w" where
  "generateAnthropicResponse rt p msgs ts systemMessage w =
     (case anthropic p of
        None \<Rightarrow> (Inl (Error ''Anthropic not initialized''), w)
      | Some create \<Rightarrow>
          (case create (anthropicRequest (ai_config p) systemMessage msgs ts) w of
             (Inl err, w1) \<Rightarrow> (Inl err, w1)
           | (Inr response, w1) \<Rightarrow>
               (case now rt w1 of
                  (t, w2) \<Rightarrow>
                    (Inr (fold addBlock (a_blocks response)
                            \<lparr>msg_id = a_response_id response, role = Assistant, content = [],
                             timestamp = t, toolCalls = None, toolResults = None\<rparr>), w2))))"

subsection \<open>generateGroqResponse\<close>

definition groqApology :: string where
  "groqApology = ''I apologize, but I encountered an issue with function calling. Please try rephrasing your request or use a different command.''"

text \<open>
  \<^verbatim>\<open>tool_calls.filter(tc => tc.function).map(tc => { try {...} catch { return null } })\<close>
  \<^verbatim>\<open>.filter(tc => tc !== null)\<close> in one pass: a call with no function and a call whose
  arguments do not parse are left out.
\<close>

fun parseGroqCalls :: "'w Runtime \<Rightarrow> GToolCall list \<Rightarrow> 'w \<Rightarrow> ToolCall list \<times> 'w" where
  "parseGroqCalls rt [] w = ([], w)"
| "parseGroqCalls rt (tc # rest) w =
     (case g_function tc of
        None \<Rightarrow> parseGroqCalls rt rest w
      | Some f \<Rightarrow>
          (case idOr rt (g_id tc) ''call-'' w of
             (i, w1) \<Rightarrow>
               (case parse rt (orElse (g_arguments f) ''{}'') of
                  Inl err \<Rightarrow> parseGroqCalls rt rest w1
                | Inr args \<Rightarrow>
                    (case parseGroqCalls rt rest w1 of
                       (calls, w2) \<Rightarrow>
                         (\<lparr>call_id = i, call_name = orElse (g_name f) [], arguments = args\<rparr>
                            # calls, w2)))))"

text \<open>The \<^verbatim>\<open>try\<close> block: the request with the tool definitions and the parsing of its answer.\<close>

definition groqAttempt ::
  "'w Runtime \<Rightarrow> AgentConfig \<Rightarrow> (ChatRequest \<Rightarrow> 'w \<Rightarrow> (thrown + GCompletion) \<times> 'w)
     \<Rightarrow> ChatMessage list \<Rightarrow> 'w Tool list \<Rightarrow> 'w \<Rightarrow> (thrown + AgentMessage) \<times> 'w" where
  "groqAttempt rt cfg create formatted ts w =
     (case create (chatRequest cfg formatted (offeredTools ts)) w of
        (Inl err, w1) \<Rightarrow> (Inl err, w1)
      | (Inr response, w1) \<Rightarrow>
          (case g_choices response of
             [] \<Rightarrow> (Inl noChoice, w1)
           | msg # others \<Rightarrow>
               (case idOr rt (g_completion_id response) ''groq-'' w1 of
                  (i, w2) \<Rightarrow>
                    (case now rt w2 of
                       (t, w3) \<Rightarrow>
                         (case g_tool_calls msg of
                            Some (tc # tcs) \<Rightarrow>
                              (case parseGroqCalls rt (tc # tcs) w3 of
                                 (calls, w4) \<Rightarrow>
                                   (Inr \<lparr>msg_id = i, role = Assistant,
                                         content = orElse (g_content msg) [], timestamp = t,
                                         toolCalls = Some calls, toolResults = None\<rparr>, w4))
                          | _ \<Rightarrow>
                              (Inr \<lparr>msg_id = i, role = Assistant,
                                    content = orElse (g_content msg) [], timestamp = t,
                                    toolCalls = None, toolResults = None\<rparr>, w3))))))"

text \<open>The retry of the \<^verbatim>\<open>catch\<close> block: the same request with no tool definitions.\<close>

definition groqFallback ::
  "'w Runtime \<Rightarrow> AgentConfig \<Rightarrow> (ChatRequest \<Rightarrow> 'w \<Rightarrow> (thrown + GCompletion) \<times> 'w)
     \<Rightarrow> ChatMessage list \<Rightarrow> 'w \<Rightarrow> (thrown + AgentMessage) \<times> 'w" where
  "groqFallback rt cfg create formatted w =
     (case create (chatRequest cfg formatted None) w of
        (Inl err, w1) \<Rightarrow> (Inl err, w1)
      | (Inr fallbackResponse, w1) \<Rightarrow>
          (case g_choices fallbackResponse of
             [] \<Rightarrow> (Inl noChoice, w1)
           | fallbackMessage # others \<Rightarrow>
               (case idOr rt (g_completion_id fallbackResponse) ''groq-'' w1 of
                  (i, w2) \<Rightarrow>
                    (case now rt w2 of
                       (t, w3) \<Rightarrow>
                         (Inr \<lparr>msg_id = i, role = Assistant,
                               content = orElse (g_content fallbackMessage) groqApology,
                               timestamp = t, toolCalls = None, toolResults = None\<rparr>, w3)))))"

definition toolUseFailed :: "thrown \<Rightarrow> bool" where
  "toolUseFailed err = (status err = Some 400 \<and> code err = Some ''tool_use_failed'')"

definition generateGroqResponse ::
  "'w Runtime \<Rightarrow> 'w AIProvider \<Rightarrow> AgentMessage list \<Rightarrow> 'w Tool list \<Rightarrow> string \<Rightarrow> 'w
     \<Rightarrow> (thrown + AgentMessage) \<times> 'w" where
  "generateGroqResponse rt p msgs ts systemMessage w =
     (case groq p of
        None \<Rightarrow> (Inl (Error ''Groq not initialized''), w)
      | Some create \<Rightarrow>
          (case groqAttempt rt (ai_config p) create (chatFormattedMessages rt systemMessage msgs) ts w of
             (Inr m, w1) \<Rightarrow> (Inr m, w1)
           | (Inl err, w1) \<Rightarrow>
               (if toolUseFailed err then
                  groqFallback rt (ai_config p) create (chatFormattedMessages rt systemMessage msgs) w1
                else (Inl err, w1))))"

text \<open>
  The earlier copy of the Groq variant: no \<^verbatim>\<open>try\<close> around the request or around
  \<^verbatim>\<open>JSON.parse\<close>, and no item type in the tool definitions.
\<close>

fun parseGroqCalls_v1 :: "'w Runtime \<Rightarrow> GToolCall list \<Rightarrow> 'w \<Rightarrow> (thrown + ToolCall list) \<times> 'w" where
  "parseGroqCalls_v1 rt [] w = (Inr [], w)"
| "parseGroqCalls_v1 rt (tc # rest) w =
     (case g_function tc of
        None \<Rightarrow> parseGroqCalls_v1 rt rest w
      | Some f \<Rightarrow>
          (case idOr rt (g_id tc) ''call-'' w of
             (i, w1) \<Rightarrow>
               (case parse rt (orElse (g_arguments f) ''{}'') of
                  Inl err \<Rightarrow> (Inl err, w1)
                | Inr args \<Rightarrow>
                    (case parseGroqCalls_v1 rt rest w1 of
                       (Inl err, w2) \<Rightarrow> (Inl err, w2)
                     | (Inr calls, w2) \<Rightarrow>
                         (Inr (\<lparr>call_id = i, call_name = orElse (g_name f) [], arguments = args\<rparr>
                                 # calls), w2)))))"

definition offeredTools_v1 :: "'w Tool list \<Rightarrow> FunctionDef list option" where
  "offeredTools_v1 ts =
     (if ts \<noteq> [] then
        Some (map (\<lambda>tool. (toolDefinition tool)
                     \<lparr>def_properties :=
                        fromEntries (map (\<lambda>p. (param_name p, (propDef p)\<lparr>prop_items := None\<rparr>))
                                       (parameters tool))\<rparr>) ts)
      else None)"

definition generateGroqResponse_v1 ::
  "'w Runtime \<Rightarrow> 'w AIProvider \<Rightarrow> AgentMessage list \<Rightarrow> 'w Tool list \<Rightarrow> string \<Rightarrow> 'w
     \<Rightarrow> (thrown + AgentMessage) \<times> 'w" where
  "generateGroqResponse_v1 rt p msgs ts systemMessage w =
     (case groq p of
        None \<Rightarrow> (Inl (Error ''Groq not initialized''), w)
      | Some create \<Rightarrow>
          (case create (chatRequest (ai_config p) (chatFormattedMessages rt systemMessage msgs)
                          (offeredTools_v1 ts)) w of
             (Inl err, w1) \<Rightarrow> (Inl err, w1)
           | (Inr response, w1) \<Rightarrow>
               (case g_choices response of
                  [] \<Rightarrow> (Inl noChoice, w1)
                | msg # others \<Rightarrow>
                    (case idOr rt (g_completion_id response) ''groq-'' w1 of
                       (i, w2) \<Rightarrow>
                         (case now rt w2 of
                            (t, w3) \<Rightarrow>
                              (case g_tool_calls msg of
                                 Some (tc # tcs) \<Rightarrow>
                                   (case parseGroqCalls_v1 rt (tc # tcs) w3 of
                                      (Inl err, w4) \<Rightarrow> (Inl err, w4)
                                    | (Inr calls, w4) \<Rightarrow>
                                        (Inr \<lparr>msg_id = i, role = Assistant,
                                              content = orElse (g_content msg) [], timestamp = t,
                                              toolCalls = Some calls, toolResults = None\<rparr>, w4))
                               | _ \<Rightarrow>
                                   (Inr \<lparr>msg_id = i, role = Assistant,
                                         content = orElse (g_content msg) [], timestamp = t,
                                         toolCalls = None, toolResults = None\<rparr>, w3)))))))"

subsection \<open>generateOllamaResponse\<close>

text \<open>
  A missing \<^verbatim>\<open>message\<close> makes the read of \<^verbatim>\<open>content\<close> throw; a message with no content
  is returned as it is, the missing content being carried as the empty text, the falsy
  value of the field's type.
\<close>

definition generateOllamaResponse ::
  "'w Runtime \<Rightarrow> 'w AIProvider \<Rightarrow> AgentMessage list \<Rightarrow> 'w Tool list \<Rightarrow> string \<Rightarrow> 'w
     \<Rightarrow> (thrown + AgentMessage) \<times> 'w" where
  "generateOllamaResponse rt p msgs ts systemMessage w =
     (case axios_post p (orElse (OLLAMA_BASE_URL p) ''http://localhost:11434'' @ ''/api/chat'')
             \<lparr>o_model = model (ai_config p),
              o_messages = ollamaFormattedMessages systemMessage msgs,
              o_stream = False,
              o_temperature = orElseReal (temperature (ai_config p)) (7 / 10)\<rparr> w of
        (Inl err, w1) \<Rightarrow> (Inl err, w1)
      | (Inr response, w1) \<Rightarrow>
          (case now rt w1 of
             (t1, w2) \<Rightarrow>
               (case data_message response of
                  None \<Rightarrow> (Inl noContent, w2)
                | Some answer \<Rightarrow>
                    (case now rt w2 of
                       (t2, w3) \<Rightarrow>
                         (Inr \<lparr>msg_id = ''ollama-'' @ decimal t1, role = Assistant,
                               content = (case o_content answer of None \<Rightarrow> [] | Some c \<Rightarrow> c),
                               timestamp = t2, toolCalls = None, toolResults = None\<rparr>, w3)))))"

subsection \<open>generateResponse\<close>

text \<open>
  The \<^verbatim>\<open>stream\<close> flag is passed on and never read. The \<^verbatim>\<open>default\<close> branch of the
  \<^verbatim>\<open>switch\<close> is outside the type of \<^verbatim>\<open>provider\<close>.
\<close>

definition generateResponse :: "'w Runtime \<Rightarrow> 'w AIProvider \<Rightarrow> 'w ModelAdapter" where
  "generateResponse rt p msgs ts w =
     (let systemMessage = orElse (systemPrompt (ai_config p)) (defaultSystemPrompt p) in
        case provider (ai_config p) of
          OpenAI \<Rightarrow> generateOpenAIResponse rt p msgs ts systemMessage w
        | Anthropic \<Rightarrow> generateAnthropicResponse rt p msgs ts systemMessage w
        | Groq \<Rightarrow> generateGroqResponse rt p msgs ts systemMessage w
        | Ollama \<Rightarrow> generateOllamaResponse rt p msgs ts systemMessage w)"

section \<open>File system tools (backend/src/agent/tools/FileSystemTool.ts)\<close>

subsection \<open>The POSIX functions of Node's \<^verbatim>\<open>path\<close> module\<close>

text \<open>Splitting at \<^verbatim>\<open>/\<close> and joining again.\<close>

fun segments :: "string \<Rightarrow> string \<Rightarrow> string list" where
  "segments cur [] = [rev cur]"
| "segments cur (c # cs) =
     (if c = CHR ''/'' then rev cur # segments [] cs else segments (c # cur) cs)"

fun joinSegments :: "string list \<Rightarrow> string" where
  "joinSegments [] = []"
| "joinSegments [s] = s"
| "joinSegments (s # t # rest) = s @ ''/'' @ joinSegments (t # rest)"

text \<open>
  \<^verbatim>\<open>normalizeString\<close>: empty and \<^verbatim>\<open>.\<close> segments vanish; \<^verbatim>\<open>..\<close> removes the segment
  before it, and where there is none it is kept only when the path may rise above its
  start. \<open>kept\<close> holds the segments kept so far, last one first.
\<close>

fun normalizeSegments :: "bool \<Rightarrow> string list \<Rightarrow> string list \<Rightarrow> string list" where
  "normalizeSegments allowAboveRoot kept [] = rev kept"
| "normalizeSegments allowAboveRoot kept (s # rest) =
     (if s = [] \<or> s = ''.'' then normalizeSegments allowAboveRoot kept rest
      else if s = ''..'' then
        (case kept of
           [] \<Rightarrow>
             normalizeSegments allowAboveRoot (if allowAboveRoot then [''..''] else []) rest
         | k # ks \<Rightarrow>
             if k = ''..'' then
               normalizeSegments allowAboveRoot (if allowAboveRoot then ''..'' # kept else kept) rest
             else normalizeSegments allowAboveRoot ks rest)
      else normalizeSegments allowAboveRoot (s # kept) rest)"

definition normalizeString :: "string \<Rightarrow> bool \<Rightarrow> string" where
  "normalizeString p allowAboveRoot = joinSegments (normalizeSegments allowAboveRoot [] (segments [] p))"

definition isAbsolute :: "string \<Rightarrow> bool" where
  "isAbsolute p = (p \<noteq> [] \<and> hd p = CHR ''/'')"

definition normalize :: "string \<Rightarrow> string" where
  "normalize p =
     (if p = [] then ''.''
      else
        (let res = normalizeString p (\<not> isAbsolute p) in
           if res = [] then
             (if isAbsolute p then ''/'' else if last p = CHR ''/'' then ''./'' else ''.'')
           else
             (if isAbsolute p then ''/'' else []) @ res @ (if last p = CHR ''/'' then ''/'' else [])))"

text \<open>\<^verbatim>\<open>path.join(a, b)\<close> and \<^verbatim>\<open>path.resolve(p)\<close>; \<open>cwd\<close> is the absolute \<^verbatim>\<open>process.cwd()\<close>.\<close>

definition join :: "string \<Rightarrow> string \<Rightarrow> string" where
  "join a b =
     (let joined = (if a = [] then b else if b = [] then a else a @ ''/'' @ b) in
        if joined = [] then ''.'' else normalize joined)"

definition resolve :: "string \<Rightarrow> string \<Rightarrow> string" where
  "resolve cwd p =
     (if isAbsolute p then ''/'' @ normalizeString p False
      else ''/'' @ normalizeString (if p = [] then cwd else cwd @ ''/'' @ p) False)"

text \<open>
  \<^verbatim>\<open>path.dirname\<close>: the path up to its last separator, trailing separators aside; the
  search does not look at the first character.
\<close>

fun lastSlash :: "string \<Rightarrow> nat option" where
  "lastSlash [] = None"
| "lastSlash (c # cs) =
     (case lastSlash cs of
        Some j \<Rightarrow> Some (Suc j)
      | None \<Rightarrow> if c = CHR ''/'' then Some 0 else None)"

definition dirname :: "string \<Rightarrow> string" where
  "dirname p =
     (if p = [] then ''.''
      else
        (case lastSlash (rev (dropWhile (\<lambda>c. c = CHR ''/'') (rev (tl p)))) of
           None \<Rightarrow> if isAbsolute p then ''/'' else ''.''
         | Some j \<Rightarrow> if isAbsolute p \<and> j = 0 then ''//'' else take (Suc j) p))"

text \<open>\<^verbatim>\<open>s.startsWith(t)\<close>.\<close>

fun startsWith :: "string \<Rightarrow> string \<Rightarrow> bool" where
  "startsWith s [] = True"
| "startsWith [] (c # cs) = False"
| "startsWith (x # xs) (c # cs) = (x = c \<and> startsWith xs cs)"

subsection \<open>The tools\<close>

text \<open>
  The calls into \<^verbatim>\<open>fs/promises\<close> and \<^verbatim>\<open>process\<close>. \<open>stat\<close> answers with
  \<^verbatim>\<open>stats.isFile()\<close>. \<open>invalidArgument\<close> is the message of the \<^verbatim>\<open>TypeError\<close> Node raises
  for an argument that is not a string; it names the argument (\<^verbatim>\<open>path\<close>, \<^verbatim>\<open>data\<close>) and
  describes the value received.
\<close>

record FsError =
  errno :: string
  fs_message :: string

record 'w FsApi =
  cwd :: "'w \<Rightarrow> string"
  stat :: "string \<Rightarrow> 'w \<Rightarrow> (FsError + bool) \<times> 'w"
  readFile :: "string \<Rightarrow> 'w \<Rightarrow> (FsError + string) \<times> 'w"
  mkdir :: "string \<Rightarrow> 'w \<Rightarrow> (FsError + unit) \<times> 'w"
  writeFile :: "string \<Rightarrow> string \<Rightarrow> 'w \<Rightarrow> (FsError + unit) \<times> 'w"
  invalidArgument :: "string \<Rightarrow> json option \<Rightarrow> string"

text \<open>\<^verbatim>\<open>const { filePath } = args\<close>: a property of an object; destructuring \<^verbatim>\<open>null\<close> throws.\<close>

definition property :: "json \<Rightarrow> string \<Rightarrow> json option" where
  "property args k = (case args of JObj es \<Rightarrow> map_of es k | _ \<Rightarrow> None)"

definition cannotDestructure :: "string \<Rightarrow> rejection" where
  "cannotDestructure k =
     Rejected (Some (''Cannot destructure property '' @ [CHR 0x27] @ k @ [CHR 0x27] @ '' of ''
                       @ [CHR 0x27] @ ''args'' @ [CHR 0x27] @ '' as it is null.''))"

definition accessDenied :: "string \<Rightarrow> string" where
  "accessDenied wsRoot = ''Error: Access denied. File must be within workspace: '' @ wsRoot"

text \<open>The security check shared by the tools: \<^verbatim>\<open>resolvedPath.startsWith(resolvedWorkspace)\<close>.\<close>

definition fullPathOf :: "string \<Rightarrow> string \<Rightarrow> string" where
  "fullPathOf wsRoot filePath = (if isAbsolute filePath then filePath else join wsRoot filePath)"

definition withinWorkspace :: "string \<Rightarrow> string \<Rightarrow> string \<Rightarrow> bool" where
  "withinWorkspace dir wsRoot filePath =
     startsWith (resolve dir (fullPathOf wsRoot filePath)) (resolve dir wsRoot)"

definition readFailure :: "string \<Rightarrow> FsError \<Rightarrow> string" where
  "readFailure filePath e =
     (if errno e = ''ENOENT'' then ''Error: File not found: '' @ filePath
      else ''Error reading file: '' @ fs_message e)"

definition read_file_execute ::
  "'w FsApi \<Rightarrow> json \<Rightarrow> ToolContext \<Rightarrow> 'w \<Rightarrow> (rejection + json) \<times> 'w" where
  "read_file_execute api args ctx w =
     (if args = JNull then (Inl (cannotDestructure ''filePath''), w)
      else
        (let wsRoot = orElse (workspaceRoot ctx) (cwd api w) in
           case property args ''filePath'' of
             Some (JStr filePath) \<Rightarrow>
               (if \<not> withinWorkspace (cwd api w) wsRoot filePath then
                  (Inr (JStr (accessDenied wsRoot)), w)
                else
                  (case stat api (resolve (cwd api w) (fullPathOf wsRoot filePath)) w of
                     (Inl e, w1) \<Rightarrow> (Inr (JStr (readFailure filePath e)), w1)
                   | (Inr isFile, w1) \<Rightarrow>
                       (if \<not> isFile then
                          (Inr (JStr (''Error: '' @ filePath @ '' is not a file'')), w1)
                        else
                          (case readFile api (resolve (cwd api w) (fullPathOf wsRoot filePath)) w1 of
                             (Inl e, w2) \<Rightarrow> (Inr (JStr (readFailure filePath e)), w2)
                           | (Inr body, w2) \<Rightarrow>
                               (Inr (JStr (''File: '' @ filePath @ [CHR 0x0A, CHR 0x0A]
                                             @ ''Content:'' @ [CHR 0x0A] @ body)), w2)))))
           | other \<Rightarrow> (Inr (JStr (''Error reading file: '' @ invalidArgument api ''path'' other)), w)))"

definition FileSystemTool :: "'w FsApi \<Rightarrow> 'w Tool" where
  "FileSystemTool api =
     \<lparr>name = ''read_file'',
      description = ''Read the contents of a file from the workspace'',
      parameters =
        [\<lparr>param_name = ''filePath'', param_type = PString,
          param_description = ''The path to the file to read (relative to workspace root)'',
          required = True, enum_values = None\<rparr>],
      execute = read_file_execute api\<rparr>"

text \<open>The UTF-8 bytes of the check mark that starts the success line of \<^verbatim>\<open>write_file\<close>.\<close>

definition checkMark :: string where
  "checkMark = [CHR 0xE2, CHR 0x9C, CHR 0x85]"

definition write_file_execute ::
  "'w FsApi \<Rightarrow> json \<Rightarrow> ToolContext \<Rightarrow> 'w \<Rightarrow> (rejection + json) \<times> 'w" where
  "write_file_execute api args ctx w =
     (if args = JNull then (Inl (cannotDestructure ''filePath''), w)
      else
        (let wsRoot = orElse (workspaceRoot ctx) (cwd api w) in
           case property args ''filePath'' of
             Some (JStr filePath) \<Rightarrow>
               (if \<not> withinWorkspace (cwd api w) wsRoot filePath then
                  (Inr (JStr (accessDenied wsRoot)), w)
                else
                  (case mkdir api (dirname (resolve (cwd api w) (fullPathOf wsRoot filePath))) w of
                     (Inl e, w1) \<Rightarrow> (Inr (JStr (''Error writing file: '' @ fs_message e)), w1)
                   | (Inr u, w1) \<Rightarrow>
                       (case property args ''content'' of
                          Some (JStr body) \<Rightarrow>
                            (case writeFile api (resolve (cwd api w) (fullPathOf wsRoot filePath)) body w1 of
                               (Inl e, w2) \<Rightarrow> (Inr (JStr (''Error writing file: '' @ fs_message e)), w2)
                             | (Inr u2, w2) \<Rightarrow>
                                 (Inr (JStr (checkMark @ '' Successfully wrote to file: '' @ filePath)), w2))
                        | other \<Rightarrow>
                            (Inr (JStr (''Error writing file: '' @ invalidArgument api ''data'' other)), w1))))
           | other \<Rightarrow> (Inr (JStr (''Error writing file: '' @ invalidArgument api ''path'' other)), w)))"

definition WriteFileTool :: "'w FsApi \<Rightarrow> 'w Tool" where
  "WriteFileTool api =
     \<lparr>name = ''write_file'',
      description = ''Write content to a file in the workspace. Overwrites existing content.'',
      parameters =
        [\<lparr>param_name = ''filePath'', param_type = PString,
          param_description = ''The path to the file to write (relative to workspace root)'',
          required = True, enum_values = None\<rparr>,
         \<lparr>param_name = ''content'', param_type = PString,
          param_description = ''The content to write to the file'',
          required = True, enum_values = None\<rparr>],
      execute = write_file_execute api\<rparr>"

section \<open>Concrete scenarios\<close>

text \<open>
  A small world for running the definitions: the world is a counter that serves as
  clock, and every service advances it.
\<close>

definition demoRuntime :: "nat Runtime" where
  "demoRuntime =
     \<lparr>nanoid = (\<lambda>w. (''n'', Suc w)),
      now = (\<lambda>w. (w, Suc w)),
      stringify = (\<lambda>j. case j of
                          JStr s \<Rightarrow> [CHR 0x22] @ s @ [CHR 0x22]
                        | JObj [] \<Rightarrow> ''{}''
                        | _ \<Rightarrow> ''null''),
      parse = (\<lambda>s. if s = ''{}'' then Inr (JObj []) else Inl (Error ''Unexpected end of JSON input''))\<rparr>"

definition demoContext :: ToolContext where
  "demoContext =
     \<lparr>workspaceRoot = Some ''/workspace'', currentFile = None, userId = None, sessionId = ''s1''\<rparr>"

definition demoConfig :: AgentConfig where
  "demoConfig =
     \<lparr>provider = Groq, model = ''llama-3.1-8b-instant'', temperature = None, maxTokens = None,
      systemPrompt = None\<rparr>"

definition listFilesTool :: "nat Tool" where
  "listFilesTool =
     \<lparr>name = ''list_files'', description = ''List files and directories in a workspace directory'',
      parameters = [], execute = (\<lambda>args ctx w. (Inr (JStr ''a.ts''), Suc w))\<rparr>"

definition brokenTool :: "nat Tool" where
  "brokenTool =
     \<lparr>name = ''generate_tests'', description = [],
      parameters = [], execute = (\<lambda>args ctx w. (Inl (Rejected (Some ''boom'')), Suc w))\<rparr>"

definition listFilesV2 :: "nat Tool" where
  "listFilesV2 = listFilesTool\<lparr>description := ''List files (second registration)''\<rparr>"

definition batch :: "ToolCall list" where
  "batch =
     [\<lparr>call_id = ''A'', call_name = ''list_files'', arguments = JObj [(''directory'', JStr ''src'')]\<rparr>,
      \<lparr>call_id = ''B'', call_name = ''generate_tests'', arguments = JObj []\<rparr>,
      \<lparr>call_id = ''C'', call_name = ''nonexistent_tool'', arguments = JObj []\<rparr>]"

text \<open>A model that asks for the batch in every round, and one that asks once.\<close>

definition loopingModel :: "nat ModelAdapter" where
  "loopingModel msgs ts w =
     (Inr \<lparr>msg_id = ''r'', role = Assistant, content = [], timestamp = w,
           toolCalls = Some batch, toolResults = None\<rparr>, Suc w)"

definition listingModel :: "nat ModelAdapter" where
  "listingModel msgs ts w =
     (if msgs \<noteq> [] \<and> role (last msgs) = User then
        (Inr \<lparr>msg_id = ''r1'', role = Assistant, content = [], timestamp = w,
              toolCalls = Some batch, toolResults = None\<rparr>, Suc w)
      else
        (Inr \<lparr>msg_id = ''r2'', role = Assistant, content = ''Found a.ts'', timestamp = w,
              toolCalls = None, toolResults = None\<rparr>, Suc w))"

definition loopingAgent :: "nat Agent" where
  "loopingAgent = registerTools [listFilesTool, brokenTool] (new_Agent demoConfig loopingModel)"

definition listingAgent :: "nat Agent" where
  "listingAgent = registerTools [listFilesTool, brokenTool] (new_Agent demoConfig listingModel)"

definition askMsg :: AgentMessage where
  "askMsg =
     \<lparr>msg_id = ''u'', role = User, content = ''list files in src'', timestamp = 0,
      toolCalls = None, toolResults = None\<rparr>"

text \<open>The agent after one exchange on session \<^verbatim>\<open>s1\<close>.\<close>

definition seasonedAgent :: "nat Agent" where
  "seasonedAgent =
     agent_after (processMessage demoRuntime listingAgent ''list files in src'' demoContext
                    (Some ''s1'') None 0)"

text \<open>
  Providers: a Groq endpoint that fails every request carrying tool definitions with
  \<^verbatim>\<open>tool_use_failed\<close> and answers a request without them with empty content; an OpenAI
  and a Groq endpoint that answer with two tool calls, the second with malformed
  arguments; an Ollama server.
\<close>

definition baseProvider :: "nat AIProvider" where
  "baseProvider =
     \<lparr>ai_config = demoConfig, openai = None, anthropic = None, groq = None,
      axios_post = (\<lambda>url req w. (Inl (Error ''connect ECONNREFUSED''), Suc w)),
      trackRequest = (\<lambda>prov mdl tin tout req w. Suc w),
      OLLAMA_BASE_URL = None,
      defaultSystemPrompt = ''You are an expert DevOps AI assistant.''\<rparr>"

definition failingGroq :: "ChatRequest \<Rightarrow> nat \<Rightarrow> (thrown + GCompletion) \<times> nat" where
  "failingGroq req w =
     (case req_tools req of
        Some defs \<Rightarrow>
          (Inl \<lparr>status = Some 400, code = Some ''tool_use_failed'',
                message = ''Failed to call a function. Please adjust your prompt.''\<rparr>, Suc w)
      | None \<Rightarrow>
          (Inr \<lparr>g_completion_id = Some ''chatcmpl-2'',
                g_choices = [\<lparr>g_content = None, g_tool_calls = None\<rparr>]\<rparr>, Suc w))"

definition groqProvider :: "nat AIProvider" where
  "groqProvider = baseProvider\<lparr>groq := Some failingGroq\<rparr>"

definition openaiProvider :: "nat AIProvider" where
  "openaiProvider =
     baseProvider
       \<lparr>ai_config := demoConfig\<lparr>provider := OpenAI, model := ''gpt-4o''\<rparr>,
        openai := Some (\<lambda>req w.
          (Inr \<lparr>oa_completion_id = ''chatcmpl-1'',
                oa_choices =
                  [\<lparr>oa_content = None,
                    oa_tool_calls = Some
                      [\<lparr>oa_id = ''A'', oa_function = \<lparr>oa_name = ''list_files'', oa_arguments = ''{}''\<rparr>\<rparr>,
                       \<lparr>oa_id = ''B'',
                        oa_function = \<lparr>oa_name = ''generate_tests'', oa_arguments = ''{filePath:''\<rparr>\<rparr>]\<rparr>],
                oa_usage = None\<rparr>, Suc w))\<rparr>"

definition groqTwin :: "nat AIProvider" where
  "groqTwin =
     baseProvider
       \<lparr>groq := Some (\<lambda>req w.
          (Inr \<lparr>g_completion_id = Some ''chatcmpl-1'',
                g_choices =
                  [\<lparr>g_content = None,
                    g_tool_calls = Some
                      [\<lparr>g_id = Some ''A'',
                        g_function = Some \<lparr>g_name = Some ''list_files'', g_arguments = Some ''{}''\<rparr>\<rparr>,
                       \<lparr>g_id = Some ''B'',
                        g_function = Some \<lparr>g_name = Some ''generate_tests'',
                                           g_arguments = Some ''{filePath:''\<rparr>\<rparr>]\<rparr>]\<rparr>, Suc w))\<rparr>"



text \<open>A history with one answered tool request.\<close>

definition toolHistory :: "AgentMessage list" where
  "toolHistory =
     [askMsg,
      \<lparr>msg_id = ''r1'', role = Assistant, content = [], timestamp = 1,
       toolCalls = Some [\<lparr>call_id = ''A'', call_name = ''list_files'', arguments = JObj []\<rparr>],
       toolResults = None\<rparr>,
      \<lparr>msg_id = ''A'', role = ToolRole, content = ''a.ts'', timestamp = 2, toolCalls = None,
       toolResults = Some [\<lparr>result_id = ''A'', result_name = ''list_files'', result = JStr ''a.ts'',
                            error = None\<rparr>]\<rparr>]"

text \<open>An Anthropic endpoint that reports whether the request held any content block.\<close>

definition anthropicProvider :: "nat AIProvider" where
  "anthropicProvider =
     baseProvider
       \<lparr>ai_config := demoConfig\<lparr>provider := Anthropic, model := ''claude-3-5-sonnet-20241022''\<rparr>,
        anthropic := Some (\<lambda>req w.
          (Inr \<lparr>a_response_id = ''msg_1'',
                a_blocks =
                  [TextBlock
                     (if list_ex (\<lambda>m. case a_content m of Blocks bs \<Rightarrow> True | PlainText s \<Rightarrow> False)
                           (a_messages req)
                      then ''request with tool blocks'' else ''request with plain text only'')]\<rparr>,
           Suc w))\<rparr>"

text \<open>
  A file system whose world is the log of the operations performed on it: a secret file
  lies beside the workspace \<^verbatim>\<open>/workspace\<close>, in \<^verbatim>\<open>/workspaceX\<close>.
\<close>

definition noEntry :: FsError where
  "noEntry = \<lparr>errno = ''ENOENT'', fs_message = ''ENOENT: no such file or directory''\<rparr>"

definition demoFs :: "string list FsApi" where
  "demoFs =
     \<lparr>cwd = (\<lambda>w. ''/home/dev/backend''),
      stat = (\<lambda>p w. (if p = ''/workspaceX/secret.txt'' then Inr True else Inl noEntry,
                        w @ [''stat '' @ p])),
      readFile = (\<lambda>p w. (if p = ''/workspaceX/secret.txt'' then Inr ''top secret'' else Inl noEntry,
                            w @ [''readFile '' @ p])),
      mkdir = (\<lambda>p w. (Inr (), w @ [''mkdir '' @ p])),
      writeFile = (\<lambda>p body w. (Inr (), w @ [''writeFile '' @ p])),
      invalidArgument = (\<lambda>arg a. ''The '' @ arg @ '' argument must be of type string'')\<rparr>"

text \<open>
  A tool whose promise rejects with \<^verbatim>\<open>null\<close>, a batch that calls it between two calls of
  \<^verbatim>\<open>list_files\<close>, a model that asks for that batch once, and a model that asks for
  \<^verbatim>\<open>list_files\<close> in its first nineteen rounds (the history then holds 39 messages) and for
  the rejecting tool in the twentieth.
\<close>

definition nullTool :: "nat Tool" where
  "nullTool =
     \<lparr>name = ''run_tests'', description = ''Run the test suite'',
      parameters = [], execute = (\<lambda>args ctx w. (Inl RejectedNull, Suc w))\<rparr>"

definition crashBatch :: "ToolCall list" where
  "crashBatch =
     [\<lparr>call_id = ''A'', call_name = ''list_files'', arguments = JObj []\<rparr>,
      \<lparr>call_id = ''B'', call_name = ''run_tests'', arguments = JObj []\<rparr>,
      \<lparr>call_id = ''C'', call_name = ''list_files'', arguments = JObj []\<rparr>]"

definition crashModel :: "nat ModelAdapter" where
  "crashModel msgs ts w =
     (if msgs \<noteq> [] \<and> role (last msgs) = User then
        (Inr \<lparr>msg_id = ''r1'', role = Assistant, content = [], timestamp = w,
              toolCalls = Some crashBatch, toolResults = None\<rparr>, Suc w)
      else
        (Inr \<lparr>msg_id = ''r2'', role = Assistant, content = ''Tests ran'', timestamp = w,
              toolCalls = None, toolResults = None\<rparr>, Suc w))"

definition crashAgent :: "nat Agent" where
  "crashAgent = registerTools [listFilesTool, nullTool] (new_Agent demoConfig crashModel)"

definition stubbornModel :: "nat ModelAdapter" where
  "stubbornModel msgs ts w =
     (Inr \<lparr>msg_id = ''r'', role = Assistant, content = [], timestamp = w,
           toolCalls = Some [\<lparr>call_id = ''c'',
                               call_name = (if length msgs < 39 then ''list_files'' else ''run_tests''),
                               arguments = JObj []\<rparr>],
           toolResults = None\<rparr>, Suc w)"

definition stubbornAgent :: "nat Agent" where
  "stubbornAgent = registerTools [listFilesTool, nullTool] (new_Agent demoConfig stubbornModel)"

section \<open>Tool registry\<close>

lemma tools_registerTool:
  "tools (registerTool t ag) = AList.update (name t) t (tools ag)"
  by (simp add: registerTool_def)

lemma getTool_registerTool:
  "getTool (registerTool t ag) n = (if n = name t then Some t else getTool ag n)"
  by (simp add: getTool_def registerTool_def update_conv')

lemma distinct_registerTool:
  "distinct (map fst (tools ag)) \<Longrightarrow> distinct (map fst (tools (registerTool t ag)))"
  by (simp add: registerTool_def distinct_update)

lemma distinct_registerTools:
  "distinct (map fst (tools ag)) \<Longrightarrow> distinct (map fst (tools (registerTools ts ag)))"
  unfolding registerTools_def
  by (induction ts arbitrary: ag) (simp_all add: distinct_registerTool)

lemma count_distinct_key:
  "distinct (map fst al) \<Longrightarrow> map_of al k = Some v \<Longrightarrow> filter (\<lambda>e. fst e = k) al = [(k, v)]"
proof (induction al)
  case Nil
  then show ?case by simp
next
  case (Cons e al)
  obtain k' v' where e: "e = (k', v')" by (cases e)
  show ?case
  proof (cases "k' = k")
    case True
    with Cons.prems e have "v' = v" by simp
    moreover from Cons.prems e True have "k \<notin> fst ` set al" by simp
    then have "filter (\<lambda>e. fst e = k) al = []"
      by (auto simp: filter_empty_conv)
    ultimately show ?thesis using e True by simp
  next
    case False
    with Cons e show ?thesis by simp
  qed
qed

lemma keyed_update:
  "keyed al \<Longrightarrow> keyed (AList.update (name t) t al)"
  by (induction al) (auto simp: keyed_def)

lemma keyed_registerTools:
  "keyed (tools ag) \<Longrightarrow> keyed (tools (registerTools ts ag))"
  unfolding registerTools_def
  by (induction ts arbitrary: ag) (simp_all add: tools_registerTool keyed_update)

lemma keyed_filter:
  "keyed al \<Longrightarrow> filter (\<lambda>t. name t = n) (map snd al) = map snd (filter (\<lambda>e. fst e = n) al)"
  by (induction al) (auto simp: keyed_def)

text \<open>
  C8. Registering \<open>t1\<close> and then \<open>t2\<close> under the same name, on any registry built by
  registrations from a new agent, leaves exactly one entry under that name, and it is
  \<open>t2\<close>; registration is a total function (it has no error result); and
  \<^verbatim>\<open>registerTools\<close> is the sequence of \<^verbatim>\<open>registerTool\<close> calls in list order.
\<close>

theorem registry_overwrite:
  assumes "name t1 = name t2"
  shows "getTool (registerTool t2 (registerTool t1 (registerTools ts (new_Agent cfg gen)))) (name t2) = Some t2
    \<and> filter (\<lambda>t. name t = name t2)
         (allTools (registerTool t2 (registerTool t1 (registerTools ts (new_Agent cfg gen))))) = [t2]
    \<and> filter (\<lambda>e. fst e = name t2)
         (tools (registerTool t2 (registerTool t1 (registerTools ts (new_Agent cfg gen))))) = [(name t2, t2)]
    \<and> map fst (tools (registerTool t2 (registerTool t1 ag))) = map fst (tools (registerTool t1 ag))
    \<and> registerTools [] ag = ag
    \<and> registerTools (t # ts') ag = registerTools ts' (registerTool t ag)
    \<and> registerTools [t1, t2] ag = registerTool t2 (registerTool t1 ag)"
proof -
  let ?ag = "registerTool t2 (registerTool t1 (registerTools ts (new_Agent cfg gen)))"
  have d0: "distinct (map fst (tools (new_Agent cfg gen :: 'a Agent)))"
    by (simp add: new_Agent_def)
  have d: "distinct (map fst (tools ?ag))"
    by (intro distinct_registerTool distinct_registerTools d0)
  have g: "getTool ?ag (name t2) = Some t2"
    by (simp add: getTool_registerTool)
  then have m: "map_of (tools ?ag) (name t2) = Some t2"
    by (simp add: getTool_def)
  have f: "filter (\<lambda>e. fst e = name t2) (tools ?ag) = [(name t2, t2)]"
    by (rule count_distinct_key [OF d m])
  have "keyed (tools (new_Agent cfg gen :: 'a Agent))"
    by (simp add: new_Agent_def keyed_def)
  then have "keyed (tools ?ag)"
    by (simp add: tools_registerTool keyed_update keyed_registerTools)
  then have a: "filter (\<lambda>t. name t = name t2) (allTools ?ag) = [t2]"
    unfolding allTools_def by (simp add: keyed_filter f)
  have "registerTools [t1, t2] ag = registerTool t2 (registerTool t1 ag)"
    by (simp add: registerTools_def)
  moreover have "registerTools [] ag = ag" "registerTools (t # ts') ag = registerTools ts' (registerTool t ag)"
    by (simp_all add: registerTools_def)
  moreover have "map fst (tools (registerTool t2 (registerTool t1 ag))) = map fst (tools (registerTool t1 ag))"
    using assms by (simp add: tools_registerTool update_keys dom_update)
  ultimately show ?thesis using g f a by simp
qed


theorem registry_overwrite_witness:
  "name listFilesTool = name listFilesV2
   \<and> getTool (registerTool listFilesV2 (registerTool listFilesTool
          (registerTools [brokenTool] (new_Agent demoConfig loopingModel)))) ''list_files''
        = Some listFilesV2
   \<and> filter (\<lambda>t. name t = ''list_files'')
        (allTools (registerTool listFilesV2 (registerTool listFilesTool
          (registerTools [brokenTool] (new_Agent demoConfig loopingModel))))) = [listFilesV2]
   \<and> map fst (tools (registerTool listFilesV2 (registerTool listFilesTool
          (registerTools [brokenTool] (new_Agent demoConfig loopingModel)))))
        = [''generate_tests'', ''list_files'']"
proof -
  have n: "name listFilesTool = name listFilesV2"
    by (simp add: listFilesV2_def)
  have n2: "name listFilesV2 = ''list_files''"
    by (simp add: listFilesV2_def listFilesTool_def)
  have k: "map fst (tools (registerTool listFilesV2 (registerTool listFilesTool
          (registerTools [brokenTool] (new_Agent demoConfig loopingModel)))))
        = [''generate_tests'', ''list_files'']"
    by (simp add: registerTools_def registerTool_def new_Agent_def listFilesV2_def
        listFilesTool_def brokenTool_def)
  note T = registry_overwrite [OF n, of "[brokenTool]" demoConfig loopingModel]
  from T have a: "getTool (registerTool listFilesV2 (registerTool listFilesTool
          (registerTools [brokenTool] (new_Agent demoConfig loopingModel)))) (name listFilesV2)
        = Some listFilesV2"
    by (rule conjunct1)
  from T have b: "filter (\<lambda>t. name t = name listFilesV2)
        (allTools (registerTool listFilesV2 (registerTool listFilesTool
          (registerTools [brokenTool] (new_Agent demoConfig loopingModel))))) = [listFilesV2]"
    by blast
  from a b k n show ?thesis unfolding n2 by blast
qed

section \<open>The tool batch of one round\<close>

lemma executeTool_not_found:
  "getTool ag (call_name c) = None \<Longrightarrow>
     executeTool ag c ctx cb w =
       (Inr \<lparr>result_id = call_id c, result_name = call_name c, result = JNull,
             error = Some (notFoundText (call_name c))\<rparr>, w)"
  by (simp add: executeTool_def)

lemma executeTool_resolves:
  "getTool ag (call_name c) = Some tool \<Longrightarrow>
   execute tool (arguments c) ctx (sendStatus cb tool c w) = (Inr res, w') \<Longrightarrow>
     executeTool ag c ctx cb w =
       (Inr \<lparr>result_id = call_id c, result_name = call_name c, result = res, error = None\<rparr>, w')"
  by (simp add: executeTool_def)

lemma executeTool_rejects_with_value:
  "getTool ag (call_name c) = Some tool \<Longrightarrow>
   execute tool (arguments c) ctx (sendStatus cb tool c w) = (Inl (Rejected m), w') \<Longrightarrow>
     executeTool ag c ctx cb w =
       (Inr \<lparr>result_id = call_id c, result_name = call_name c, result = JNull, error = m\<rparr>, w')"
  by (simp add: executeTool_def messageOf_def)

lemma executeTool_rejects_with_null:
  "getTool ag (call_name c) = Some tool \<Longrightarrow>
   execute tool (arguments c) ctx (sendStatus cb tool c w) = (Inl RejectedNull, w') \<Longrightarrow>
     executeTool ag c ctx cb w = (Inl (cannotRead ''null'' ''message''), w')"
  by (simp add: executeTool_def messageOf_def)

lemma executeTool_rejects_with_undefined:
  "getTool ag (call_name c) = Some tool \<Longrightarrow>
   execute tool (arguments c) ctx (sendStatus cb tool c w) = (Inl RejectedUndefined, w') \<Longrightarrow>
     executeTool ag c ctx cb w = (Inl (cannotRead ''undefined'' ''message''), w')"
  by (simp add: executeTool_def messageOf_def)

lemma executeTool_id:
  "executeTool ag c ctx cb w = (Inr r, w') \<Longrightarrow>
     result_id r = call_id c \<and> result_name r = call_name c"
  by (auto simp: executeTool_def split: option.splits prod.splits sum.splits)

lemma executeTools_ids:
  "executeTools ag ctx cb calls w = (Inr rs, w') \<Longrightarrow>
     length rs = length calls \<and> map result_id rs = map call_id calls"
proof (induction calls arbitrary: w rs)
  case Nil
  then show ?case by simp
next
  case (Cons c calls)
  from Cons.prems obtain r w1 rs' where
    r: "executeTool ag c ctx cb w = (Inr r, w1)"
    and rest: "executeTools ag ctx cb calls w1 = (Inr rs', w')"
    and rs: "rs = r # rs'"
    by (auto split: prod.splits sum.splits)
  from executeTool_id [OF r] Cons.IH [OF rest] rs show ?case by simp
qed

text \<open>With tools that keep to the contract, no execution throws.\<close>

lemma executeTool_contained:
  assumes "rejectWithValues ag"
  shows "\<exists>r w'. executeTool ag c ctx cb w = (Inr r, w')"
proof (cases "getTool ag (call_name c)")
  case None
  then show ?thesis by (simp add: executeTool_not_found)
next
  case (Some tool)
  obtain x w' where x: "execute tool (arguments c) ctx (sendStatus cb tool c w) = (x, w')"
    by (cases "execute tool (arguments c) ctx (sendStatus cb tool c w)")
  show ?thesis
  proof (cases x)
    case (Inr res)
    with Some x show ?thesis by (simp add: executeTool_resolves)
  next
    case (Inl err)
    from assms Some have
      "fst (execute tool (arguments c) ctx (sendStatus cb tool c w)) \<noteq> Inl RejectedNull"
      "fst (execute tool (arguments c) ctx (sendStatus cb tool c w)) \<noteq> Inl RejectedUndefined"
      unfolding rejectWithValues_def by blast+
    with x Inl obtain m where "err = Rejected m" by (cases err) auto
    with Some x Inl show ?thesis by (simp add: executeTool_rejects_with_value)
  qed
qed

lemma executeTools_contained:
  assumes "rejectWithValues ag"
  shows "\<exists>rs w'. executeTools ag ctx cb calls w = (Inr rs, w')"
proof (induction calls arbitrary: w)
  case Nil
  show ?case by simp
next
  case (Cons c calls)
  from executeTool_contained [OF assms, of c ctx cb w] obtain r w1 where
    "executeTool ag c ctx cb w = (Inr r, w1)" by blast
  moreover from Cons.IH [of w1] obtain rs w2 where
    "executeTools ag ctx cb calls w1 = (Inr rs, w2)" by blast
  ultimately show ?case by simp
qed

lemma toolResultMessages_shape:
  "map msg_id (fst (toolResultMessages rt rs w)) = map result_id rs
     \<and> map toolResults (fst (toolResultMessages rt rs w)) = map (\<lambda>r. Some [r]) rs
     \<and> list_all (\<lambda>m. role m = ToolRole) (fst (toolResultMessages rt rs w))"
  by (induction rs arbitrary: w) (simp_all add: toolResultMessage_def split_beta)

section \<open>One round and the loop\<close>

lemma processRound_rejects:
  "aiProvider ag msgs (allTools ag) w = (Inl err, w1) \<Longrightarrow>
     processRound rt ag ctx cb msgs w =
       \<lparr>step = Return (Inl err), reply = Inl err, round_messages = msgs, round_world = w1\<rparr>"
  by (simp add: processRound_def)

lemma processRound_final:
  "aiProvider ag msgs (allTools ag) w = (Inr response, w1) \<Longrightarrow> requested response = [] \<Longrightarrow>
     processRound rt ag ctx cb msgs w =
       \<lparr>step = Return (Inr response), reply = Inr response,
        round_messages = msgs @ [response], round_world = w1\<rparr>"
  by (simp add: processRound_def)

lemma processRound_tools:
  "aiProvider ag msgs (allTools ag) w = (Inr response, w1) \<Longrightarrow> requested response \<noteq> [] \<Longrightarrow>
   executeTools ag ctx cb (requested response) w1 = (Inr rs, w2) \<Longrightarrow>
     processRound rt ag ctx cb msgs w =
       \<lparr>step = Continue, reply = Inr response,
        round_messages = msgs @ [response] @ fst (toolResultMessages rt rs w2),
        round_world = snd (toolResultMessages rt rs w2)\<rparr>"
  by (simp add: processRound_def split_beta)

lemma processRound_tool_throws:
  "aiProvider ag msgs (allTools ag) w = (Inr response, w1) \<Longrightarrow> requested response \<noteq> [] \<Longrightarrow>
   executeTools ag ctx cb (requested response) w1 = (Inl err, w2) \<Longrightarrow>
     processRound rt ag ctx cb msgs w =
       \<lparr>step = Return (Inl err), reply = Inr response,
        round_messages = msgs @ [response], round_world = w2\<rparr>"
  by (simp add: processRound_def)

lemma reply_processRound:
  "reply (processRound rt ag ctx cb msgs w) = fst (aiProvider ag msgs (allTools ag) w)"
  by (simp add: processRound_def split: prod.splits sum.splits)

lemma step_Continue:
  "step (processRound rt ag ctx cb msgs w) = Continue \<Longrightarrow>
     requestsTools (reply (processRound rt ag ctx cb msgs w))"
  by (auto simp: processRound_def requestsTools_def split: prod.splits sum.splits if_splits)

lemma step_Return:
  "step (processRound rt ag ctx cb msgs w) = Return res \<Longrightarrow>
     \<not> requestsTools (reply (processRound rt ag ctx cb msgs w)) \<Longrightarrow>
     reply (processRound rt ag ctx cb msgs w) = res"
  by (auto simp: processRound_def requestsTools_def split: prod.splits sum.splits if_splits)


lemma processLoop_ceiling:
  "\<not> i < maxIterations \<Longrightarrow>
     processLoop rt ag ctx cb msgs i w =
       \<lparr>outcome = Inr \<lparr>msg_id = fst (nanoid rt w), role = Assistant, content = limitText,
                       timestamp = fst (now rt (snd (nanoid rt w))),
                       toolCalls = None, toolResults = None\<rparr>,
        replies = [], run_messages = msgs, run_world = snd (now rt (snd (nanoid rt w)))\<rparr>"
  by (subst processLoop.simps) (simp split: prod.splits)

lemma processLoop_return:
  "i < maxIterations \<Longrightarrow> step (processRound rt ag ctx cb msgs w) = Return res \<Longrightarrow>
     processLoop rt ag ctx cb msgs i w =
       \<lparr>outcome = res, replies = [reply (processRound rt ag ctx cb msgs w)],
        run_messages = round_messages (processRound rt ag ctx cb msgs w),
        run_world = round_world (processRound rt ag ctx cb msgs w)\<rparr>"
  by (subst processLoop.simps) (simp add: Let_def)

lemma processLoop_continue:
  "i < maxIterations \<Longrightarrow> step (processRound rt ag ctx cb msgs w) = Continue \<Longrightarrow>
     processLoop rt ag ctx cb msgs i w =
       (processLoop rt ag ctx cb (round_messages (processRound rt ag ctx cb msgs w)) (Suc i)
          (round_world (processRound rt ag ctx cb msgs w)))
       \<lparr>replies := reply (processRound rt ag ctx cb msgs w)
          # replies (processLoop rt ag ctx cb (round_messages (processRound rt ag ctx cb msgs w))
                       (Suc i) (round_world (processRound rt ag ctx cb msgs w)))\<rparr>"
  by (subst processLoop.simps) (simp add: Let_def)

lemma replies_bound:
  "length (replies (processLoop rt ag ctx cb msgs i w)) \<le> maxIterations - i"
proof (induction rt ag ctx cb msgs i w rule: processLoop.induct)
  case (1 rt ag ctx cb msgs i w)
  show ?case
  proof (cases "i < maxIterations")
    case False
    then show ?thesis by (simp add: processLoop_ceiling)
  next
    case True
    show ?thesis
    proof (cases "step (processRound rt ag ctx cb msgs w)")
      case Continue
      from "1.IH" [OF True refl Continue] True Continue show ?thesis
        by (simp add: processLoop_continue)
    next
      case (Return res)
      with True show ?thesis by (simp add: processLoop_return)
    qed
  qed
qed

lemma some_round_is_final:
  "\<not> list_all requestsTools (replies (processLoop rt ag ctx cb msgs i w)) \<Longrightarrow>
     replies (processLoop rt ag ctx cb msgs i w) \<noteq> []
     \<and> outcome (processLoop rt ag ctx cb msgs i w) = last (replies (processLoop rt ag ctx cb msgs i w))
     \<and> list_all requestsTools (butlast (replies (processLoop rt ag ctx cb msgs i w)))"
proof (induction rt ag ctx cb msgs i w rule: processLoop.induct)
  case (1 rt ag ctx cb msgs i w)
  show ?case
  proof (cases "i < maxIterations")
    case False
    with "1.prems" show ?thesis by (simp add: processLoop_ceiling)
  next
    case True
    show ?thesis
    proof (cases "step (processRound rt ag ctx cb msgs w)")
      case Continue
      from "1.prems" True Continue step_Continue [OF Continue]
      have "\<not> list_all requestsTools
              (replies (processLoop rt ag ctx cb (round_messages (processRound rt ag ctx cb msgs w))
                 (Suc i) (round_world (processRound rt ag ctx cb msgs w))))"
        by (simp add: processLoop_continue)
      from "1.IH" [OF True refl Continue this] True Continue step_Continue [OF Continue]
      show ?thesis
        by (simp add: processLoop_continue)
    next
      case (Return res)
      from "1.prems" True Return
      have "\<not> requestsTools (reply (processRound rt ag ctx cb msgs w))"
        by (simp add: processLoop_return)
      from step_Return [OF Return this] True Return show ?thesis
        by (simp add: processLoop_return)
    qed
  qed
qed

lemma run_messages_extend:
  "\<exists>rest. run_messages (processLoop rt ag ctx cb msgs i w) = msgs @ rest"
proof (induction rt ag ctx cb msgs i w rule: processLoop.induct)
  case (1 rt ag ctx cb msgs i w)
  have round: "\<exists>rest. round_messages (processRound rt ag ctx cb msgs w) = msgs @ rest"
    by (simp add: processRound_def split: prod.splits sum.splits)
  show ?case
  proof (cases "i < maxIterations")
    case False
    then show ?thesis by (simp add: processLoop_ceiling)
  next
    case True
    show ?thesis
    proof (cases "step (processRound rt ag ctx cb msgs w)")
      case Continue
      from "1.IH" [OF True refl Continue] round True Continue show ?thesis
        by (auto simp: processLoop_continue)
    next
      case (Return res)
      with True round show ?thesis by (simp add: processLoop_return)
    qed
  qed
qed

section \<open>What holds while the tools keep to their contract\<close>

lemma contained_step:
  assumes "rejectWithValues ag" and "step (processRound rt ag ctx cb msgs w) = Return res"
  shows "reply (processRound rt ag ctx cb msgs w) = res \<and> \<not> requestsTools res"
proof (cases "aiProvider ag msgs (allTools ag) w")
  case (Pair x w1)
  show ?thesis
  proof (cases x)
    case (Inl err)
    with Pair have "aiProvider ag msgs (allTools ag) w = (Inl err, w1)" by simp
    from processRound_rejects [OF this, of rt ctx cb] assms(2) show ?thesis
      by (auto simp: requestsTools_def)
  next
    case (Inr response)
    with Pair have call: "aiProvider ag msgs (allTools ag) w = (Inr response, w1)" by simp
    show ?thesis
    proof (cases "requested response = []")
      case True
      from processRound_final [OF call True, of rt ctx cb] assms(2) True show ?thesis
        by (auto simp: requestsTools_def)
    next
      case False
      from executeTools_contained [OF assms(1), of ctx cb "requested response" w1]
      obtain rs w2 where "executeTools ag ctx cb (requested response) w1 = (Inr rs, w2)" by blast
      from processRound_tools [OF call False this, of rt] assms(2)
      show ?thesis by simp
    qed
  qed
qed

lemma contained_all_rounds_request_tools:
  assumes "rejectWithValues ag"
  shows "list_all requestsTools (replies (processLoop rt ag ctx cb msgs i w)) \<Longrightarrow>
     length (replies (processLoop rt ag ctx cb msgs i w)) = maxIterations - i
     \<and> (\<exists>mid t. outcome (processLoop rt ag ctx cb msgs i w) =
           Inr \<lparr>msg_id = mid, role = Assistant, content = limitText, timestamp = t,
                toolCalls = None, toolResults = None\<rparr>)"
  using assms
proof (induction rt ag ctx cb msgs i w rule: processLoop.induct)
  case (1 rt ag ctx cb msgs i w)
  show ?case
  proof (cases "i < maxIterations")
    case False
    then show ?thesis by (simp add: processLoop_ceiling)
  next
    case True
    show ?thesis
    proof (cases "step (processRound rt ag ctx cb msgs w)")
      case Continue
      from "1.prems"(1) True Continue
      have "list_all requestsTools
              (replies (processLoop rt ag ctx cb (round_messages (processRound rt ag ctx cb msgs w))
                 (Suc i) (round_world (processRound rt ag ctx cb msgs w))))"
        by (simp add: processLoop_continue)
      from "1.IH" [OF True refl Continue this "1.prems"(2)] True Continue show ?thesis
        by (simp add: processLoop_continue Suc_diff_Suc)
    next
      case (Return res)
      with True "1.prems"(1) contained_step [OF "1.prems"(2) Return] show ?thesis
        by (simp add: processLoop_return)
    qed
  qed
qed

lemma correlated_append:
  "correlated pending xs \<Longrightarrow> correlated [] ys \<Longrightarrow> correlated pending (xs @ ys)"
  by (induction xs arbitrary: pending) (auto split: list.splits if_splits)

lemma correlated_tool_block:
  "list_all (\<lambda>m. role m = ToolRole) tms \<Longrightarrow> correlated (map msg_id tms) tms"
  by (induction tms) simp_all

lemma correlated_round:
  assumes "correlated [] msgs" and "role response = Assistant"
    and "map msg_id tms = map call_id (requested response)"
    and "list_all (\<lambda>m. role m = ToolRole) tms"
  shows "correlated [] (msgs @ [response] @ tms)"
proof -
  from assms(3,4) have "correlated (map call_id (requested response)) tms"
    using correlated_tool_block [of tms] by simp
  with assms(2) have "correlated [] ([response] @ tms)" by simp
  with assms(1) show ?thesis by (rule correlated_append)
qed

lemma round_tool_messages:
  assumes "aiProvider ag msgs (allTools ag) w = (Inr response, w1)" and "requested response \<noteq> []"
    and "executeTools ag ctx cb (requested response) w1 = (Inr rs, w2)"
  shows "\<exists>tms. round_messages (processRound rt ag ctx cb msgs w) = msgs @ [response] @ tms
           \<and> step (processRound rt ag ctx cb msgs w) = Continue
           \<and> length tms = length (requested response)
           \<and> map msg_id tms = map call_id (requested response)
           \<and> list_all (\<lambda>m. role m = ToolRole) tms
           \<and> map toolResults tms = map (\<lambda>r. Some [r]) rs"
proof -
  let ?tms = "fst (toolResultMessages rt rs w2)"
  have ids: "map msg_id ?tms = map call_id (requested response)"
    using toolResultMessages_shape [of rt rs w2] executeTools_ids [OF assms(3)] by simp
  then have "length ?tms = length (requested response)"
    by (metis length_map)
  with ids toolResultMessages_shape [of rt rs w2] processRound_tools [OF assms, of rt]
  show ?thesis by simp
qed

lemma contained_correlated_processRound:
  assumes "rejectWithValues ag"
    and "\<forall>ms ts w0 m w1. aiProvider ag ms ts w0 = (Inr m, w1) \<longrightarrow> role m = Assistant"
    and "correlated [] msgs"
  shows "correlated [] (round_messages (processRound rt ag ctx cb msgs w))"
proof (cases "aiProvider ag msgs (allTools ag) w")
  case (Pair r w1)
  show ?thesis
  proof (cases r)
    case (Inl err)
    with Pair assms(3) show ?thesis by (simp add: processRound_rejects)
  next
    case (Inr response)
    with Pair assms(2) have role: "role response = Assistant" by blast
    show ?thesis
    proof (cases "requested response = []")
      case True
      have "correlated [] [response]" using role True by simp
      with assms(3) have "correlated [] (msgs @ [response])" by (rule correlated_append)
      with Pair Inr True show ?thesis by (simp add: processRound_final)
    next
      case False
      from Pair Inr have call: "aiProvider ag msgs (allTools ag) w = (Inr response, w1)" by simp
      from executeTools_contained [OF assms(1), of ctx cb "requested response" w1]
      obtain rs w2 where ex: "executeTools ag ctx cb (requested response) w1 = (Inr rs, w2)" by blast
      from round_tool_messages [OF call False ex, of rt] obtain tms where
        "round_messages (processRound rt ag ctx cb msgs w) = msgs @ [response] @ tms"
        "map msg_id tms = map call_id (requested response)"
        "list_all (\<lambda>m. role m = ToolRole) tms" by blast
      with correlated_round [OF assms(3) role] show ?thesis by simp
    qed
  qed
qed

lemma contained_correlated_processLoop:
  assumes "rejectWithValues ag"
    and "\<forall>ms ts w0 m w1. aiProvider ag ms ts w0 = (Inr m, w1) \<longrightarrow> role m = Assistant"
  shows "correlated [] msgs \<Longrightarrow> correlated [] (run_messages (processLoop rt ag ctx cb msgs i w))"
  using assms
proof (induction rt ag ctx cb msgs i w rule: processLoop.induct)
  case (1 rt ag ctx cb msgs i w)
  have round: "correlated [] (round_messages (processRound rt ag ctx cb msgs w))"
    using "1.prems" by (intro contained_correlated_processRound) auto
  show ?case
  proof (cases "i < maxIterations")
    case False
    with "1.prems" show ?thesis by (simp add: processLoop_ceiling)
  next
    case True
    show ?thesis
    proof (cases "step (processRound rt ag ctx cb msgs w)")
      case Continue
      from "1.IH" [OF True refl Continue round "1.prems"(2,3)] True Continue show ?thesis
        by (simp add: processLoop_continue)
    next
      case (Return res)
      with True round show ?thesis by (simp add: processLoop_return)
    qed
  qed
qed

lemma list_all_update:
  "list_all P al \<Longrightarrow> P (k, v) \<Longrightarrow> list_all P (AList.update k v al)"
  by (induction al) auto

lemma list_all_map_of:
  "list_all P al \<Longrightarrow> map_of al k = Some v \<Longrightarrow> P (k, v)"
  by (induction al) (auto split: if_splits)

lemma contained_storeCorrelated:
  assumes "rejectWithValues ag"
    and "\<forall>ms ts w0 m w1. aiProvider ag ms ts w0 = (Inr m, w1) \<longrightarrow> role m = Assistant"
    and "storeCorrelated ag"
  shows "storeCorrelated (agent_after (processMessage rt ag userMessage ctx sid0 cb w))"
proof -
  obtain sid w0 where sid: "resolveSessionId rt sid0 w = (sid, w0)"
    by (cases "resolveSessionId rt sid0 w")
  obtain h ag1 where h: "getOrCreateConversation sid (userId ctx) ag = (h, ag1)"
    by (cases "getOrCreateConversation sid (userId ctx) ag")
  have prov: "aiProvider ag1 = aiProvider ag" and tl: "tools ag1 = tools ag"
    using h by (auto simp: getOrCreateConversation_def split: option.splits)
  from tl assms(1) have cont: "rejectWithValues ag1"
    by (simp add: rejectWithValues_def getTool_def)
  have store1: "storeCorrelated ag1"
    using h assms(3)
    by (auto simp: getOrCreateConversation_def storeCorrelated_def list_all_update
        split: option.splits)
  have hist: "correlated [] (messages h)"
  proof (cases "map_of (conversations ag) sid")
    case None
    with h show ?thesis by (auto simp: getOrCreateConversation_def)
  next
    case (Some h')
    with h have "h' = h" by (auto simp: getOrCreateConversation_def)
    with Some have "map_of (conversations ag) sid = Some h" by simp
    from list_all_map_of [OF assms(3) [unfolded storeCorrelated_def] this] show ?thesis
      by simp
  qed
  obtain mid w1 where mid: "nanoid rt w0 = (mid, w1)" by (cases "nanoid rt w0")
  obtain t w2 where t: "now rt w1 = (t, w2)" by (cases "now rt w1")
  let ?userMsg = "\<lparr>msg_id = mid, role = User, content = userMessage, timestamp = t,
                   toolCalls = None, toolResults = None\<rparr>"
  have "correlated [] [?userMsg]" by simp
  with hist have "correlated [] (messages h @ [?userMsg])" by (rule correlated_append)
  with assms(2) prov cont
  have "correlated [] (run_messages (processLoop rt ag1 ctx cb (messages h @ [?userMsg]) 0 w2))"
    by (intro contained_correlated_processLoop) auto
  with store1 show ?thesis
    by (simp add: processMessage_def sid h mid t Let_def storeCorrelated_def list_all_update)
qed

section \<open>Claims about the agent loop\<close>

lemma processMessage_run:
  "\<exists>ag1 msgs0 w2.
     returned (processMessage rt ag userMessage ctx sid0 cb w) = outcome (processLoop rt ag1 ctx cb msgs0 0 w2)
     \<and> modelReplies (processMessage rt ag userMessage ctx sid0 cb w) = replies (processLoop rt ag1 ctx cb msgs0 0 w2)
     \<and> aiProvider ag1 = aiProvider ag"
proof -
  obtain sid w0 where sid: "resolveSessionId rt sid0 w = (sid, w0)"
    by (cases "resolveSessionId rt sid0 w")
  obtain h ag1 where h: "getOrCreateConversation sid (userId ctx) ag = (h, ag1)"
    by (cases "getOrCreateConversation sid (userId ctx) ag")
  obtain mid w1 where mid: "nanoid rt w0 = (mid, w1)" by (cases "nanoid rt w0")
  obtain t w2 where t: "now rt w1 = (t, w2)" by (cases "now rt w1")
  have prov: "aiProvider ag1 = aiProvider ag"
    using h by (auto simp: getOrCreateConversation_def split: option.splits)
  let ?msgs0 = "messages h @ [\<lparr>msg_id = mid, role = User, content = userMessage, timestamp = t,
                   toolCalls = None, toolResults = None\<rparr>]"
  have "returned (processMessage rt ag userMessage ctx sid0 cb w) = outcome (processLoop rt ag1 ctx cb ?msgs0 0 w2)
     \<and> modelReplies (processMessage rt ag userMessage ctx sid0 cb w) = replies (processLoop rt ag1 ctx cb ?msgs0 0 w2)
     \<and> aiProvider ag1 = aiProvider ag"
    by (simp add: processMessage_def sid h mid t Let_def prov)
  then show ?thesis by blast
qed

lemma processMessage_bounded:
  "length (modelReplies (processMessage rt ag userMessage ctx sid0 cb w)) \<le> 20"
proof -
  from processMessage_run [of rt ag userMessage ctx sid0 cb w] obtain ag1 msgs0 w2 where
    "modelReplies (processMessage rt ag userMessage ctx sid0 cb w) = replies (processLoop rt ag1 ctx cb msgs0 0 w2)"
    by blast
  with replies_bound [of rt ag1 ctx cb msgs0 0 w2] show ?thesis
    by (simp add: maxIterations_def)
qed

lemmas scenario_defs =
  listingAgent_def loopingAgent_def crashAgent_def stubbornAgent_def registerTools_def
  registerTool_def new_Agent_def getTool_def allTools_def listFilesTool_def brokenTool_def
  nullTool_def batch_def crashBatch_def demoContext_def demoRuntime_def listingModel_def
  loopingModel_def crashModel_def stubbornModel_def askMsg_def Error_def

lemmas run_defs =
  processMessage_def resolveSessionId_def getOrCreateConversation_def getConversation_def
  processLoop.simps processRound_def maxIterations_def Let_def requested_def executeTool_def
  messageOf_def cannotRead_def sendStatus_def toolResultMessage_def toolResultContent_def

lemma seasonedAgent_history:
  "map (\<lambda>m. (role m, msg_id m)) (messages (the (getConversation seasonedAgent ''s1'')))
     = [(User, ''n''), (Assistant, ''r1''), (ToolRole, ''A''), (ToolRole, ''B''), (ToolRole, ''C''),
        (Assistant, ''r2'')]"
  by (simp add: seasonedAgent_def run_defs scenario_defs)






lemma first_reply:
  "i < maxIterations \<Longrightarrow>
     replies (processLoop rt ag ctx cb msgs i w) \<noteq> []
     \<and> hd (replies (processLoop rt ag ctx cb msgs i w)) = fst (aiProvider ag msgs (allTools ag) w)"
proof -
  assume i: "i < maxIterations"
  show ?thesis
  proof (cases "step (processRound rt ag ctx cb msgs w)")
    case Continue
    with i show ?thesis by (simp add: processLoop_continue reply_processRound)
  next
    case (Return res)
    with i show ?thesis by (simp add: processLoop_return reply_processRound)
  qed
qed

lemma fresh_session_starts_empty:
  assumes "getConversation ag sid = None" and "resolveSessionId rt sid0 w = (sid, w0)"
  shows "(\<exists>rest.
          getConversation (agent_after (processMessage rt ag userMessage ctx sid0 cb w)) sid
          = Some \<lparr>messages =
                    \<lparr>msg_id = fst (nanoid rt w0), role = User, content = userMessage,
                     timestamp = fst (now rt (snd (nanoid rt w0))),
                     toolCalls = None, toolResults = None\<rparr> # rest,
                  history_sessionId = sid, history_userId = userId ctx, metadata = None\<rparr>)
    \<and> hd (modelReplies (processMessage rt ag userMessage ctx sid0 cb w))
        = fst (aiProvider ag
                 [\<lparr>msg_id = fst (nanoid rt w0), role = User, content = userMessage,
                   timestamp = fst (now rt (snd (nanoid rt w0))),
                   toolCalls = None, toolResults = None\<rparr>]
                 (allTools ag) (snd (now rt (snd (nanoid rt w0)))))"
proof -
  let ?h = "\<lparr>messages = [], history_sessionId = sid, history_userId = userId ctx, metadata = None\<rparr>"
  let ?ag1 = "ag\<lparr>conversations := AList.update sid ?h (conversations ag)\<rparr>"
  let ?u = "\<lparr>msg_id = fst (nanoid rt w0), role = User, content = userMessage,
             timestamp = fst (now rt (snd (nanoid rt w0))), toolCalls = None, toolResults = None\<rparr>"
  let ?w2 = "snd (now rt (snd (nanoid rt w0)))"
  let ?run = "processLoop rt ?ag1 ctx cb [?u] 0 ?w2"
  have create: "getOrCreateConversation sid (userId ctx) ag = (?h, ?ag1)"
    using assms(1) by (simp add: getOrCreateConversation_def getConversation_def)
  have pm: "processMessage rt ag userMessage ctx sid0 cb w =
      \<lparr>returned = outcome ?run, modelReplies = replies ?run,
       agent_after = ?ag1\<lparr>conversations :=
          AList.update sid (?h\<lparr>messages := run_messages ?run\<rparr>) (conversations ?ag1)\<rparr>,
       world_after = run_world ?run\<rparr>"
    by (simp add: processMessage_def assms(2) create Let_def split_beta)
  from run_messages_extend [of rt ?ag1 ctx cb "[?u]" 0 ?w2]
  obtain rest where rest: "run_messages ?run = ?u # rest" by auto
  have stored: "getConversation (agent_after (processMessage rt ag userMessage ctx sid0 cb w)) sid
          = Some \<lparr>messages = ?u # rest,
                  history_sessionId = sid, history_userId = userId ctx, metadata = None\<rparr>"
    by (simp add: pm getConversation_def update_conv' rest)
  have same: "aiProvider ?ag1 = aiProvider ag" "allTools ?ag1 = allTools ag"
    by (simp_all add: allTools_def)
  have "hd (replies ?run) = fst (aiProvider ?ag1 [?u] (allTools ?ag1) ?w2)"
    using first_reply [of 0 rt ?ag1 ctx cb "[?u]" ?w2] by (simp add: maxIterations_def)
  with same have first: "hd (modelReplies (processMessage rt ag userMessage ctx sid0 cb w))
        = fst (aiProvider ag [?u] (allTools ag) ?w2)"
    by (simp add: pm)
  from stored first show ?thesis by blast
qed

text \<open>
  C9. For a non-empty session id \<open>s\<close> (an empty one is replaced by a generated id, as an
  absent one is), \<^verbatim>\<open>clearConversation(s)\<close> leaves no history for \<open>s\<close>, and the next
  \<^verbatim>\<open>processMessage\<close> on \<open>s\<close> creates a fresh history whose message 0 is the new user
  message; the first model call of that exchange sees this message alone.
\<close>

theorem clear_then_process_starts_fresh:
  assumes "s \<noteq> []"
  shows "getConversation (clearConversation s ag) s = None
    \<and> (\<exists>rest.
          getConversation
            (agent_after (processMessage rt (clearConversation s ag) userMessage ctx (Some s) cb w)) s
          = Some \<lparr>messages =
                    \<lparr>msg_id = fst (nanoid rt w), role = User, content = userMessage,
                     timestamp = fst (now rt (snd (nanoid rt w))),
                     toolCalls = None, toolResults = None\<rparr> # rest,
                  history_sessionId = s, history_userId = userId ctx, metadata = None\<rparr>)
    \<and> hd (modelReplies (processMessage rt (clearConversation s ag) userMessage ctx (Some s) cb w))
        = fst (aiProvider ag
                 [\<lparr>msg_id = fst (nanoid rt w), role = User, content = userMessage,
                   timestamp = fst (now rt (snd (nanoid rt w))),
                   toolCalls = None, toolResults = None\<rparr>]
                 (allTools ag) (snd (now rt (snd (nanoid rt w)))))"
proof -
  have none: "getConversation (clearConversation s ag) s = None"
    by (simp add: getConversation_def clearConversation_def delete_conv')
  have sid: "resolveSessionId rt (Some s) w = (s, w)"
    using assms by (simp add: resolveSessionId_def)
  have same: "aiProvider (clearConversation s ag) = aiProvider ag"
    "allTools (clearConversation s ag) = allTools ag"
    by (simp_all add: clearConversation_def allTools_def)
  from fresh_session_starts_empty [OF none sid, of userMessage ctx cb] none same
  show ?thesis by simp
qed

theorem clear_then_process_starts_fresh_witness:
  "''s1'' \<noteq> []
   \<and> length (messages (the (getConversation seasonedAgent ''s1''))) = 6
   \<and> getConversation (clearConversation ''s1'' seasonedAgent) ''s1'' = None
   \<and> (\<exists>rest.
         getConversation
           (agent_after (processMessage demoRuntime (clearConversation ''s1'' seasonedAgent)
                           ''and again'' demoContext (Some ''s1'') None 7)) ''s1''
         = Some \<lparr>messages =
                   \<lparr>msg_id = ''n'', role = User, content = ''and again'', timestamp = 8,
                    toolCalls = None, toolResults = None\<rparr> # rest,
                 history_sessionId = ''s1'', history_userId = None, metadata = None\<rparr>)"
proof -
  have ne: "''s1'' \<noteq> []" by simp
  have "length (map (\<lambda>m. (role m, msg_id m)) (messages (the (getConversation seasonedAgent ''s1''))))
      = length [(User, ''n''), (Assistant, ''r1''), (ToolRole, ''A''), (ToolRole, ''B''),
          (ToolRole, ''C''), (Assistant, ''r2'')]"
    by (rule arg_cong [OF seasonedAgent_history])
  then have six: "length (messages (the (getConversation seasonedAgent ''s1''))) = 6"
    by simp
  have rt: "fst (nanoid demoRuntime 7) = ''n''" "fst (now demoRuntime (snd (nanoid demoRuntime 7))) = 8"
    "userId demoContext = None"
    by (simp_all add: demoRuntime_def demoContext_def)
  note T = clear_then_process_starts_fresh
    [OF ne, of seasonedAgent demoRuntime "''and again''" demoContext None 7, unfolded rt]
  from T have a: "getConversation (clearConversation ''s1'' seasonedAgent) ''s1'' = None"
    by (rule conjunct1)
  from T have b: "\<exists>rest.
         getConversation
           (agent_after (processMessage demoRuntime (clearConversation ''s1'' seasonedAgent)
                           ''and again'' demoContext (Some ''s1'') None 7)) ''s1''
         = Some \<lparr>messages =
                   \<lparr>msg_id = ''n'', role = User, content = ''and again'', timestamp = 8,
                    toolCalls = None, toolResults = None\<rparr> # rest,
                 history_sessionId = ''s1'', history_userId = None, metadata = None\<rparr>"
    by (rule conjunct1 [OF conjunct2])
  from ne six a b show ?thesis by blast
qed

section \<open>Claims about the model adapter\<close>

lemma generateResponse_Groq:
  "provider (ai_config p) = Groq \<Longrightarrow>
     generateResponse rt p msgs ts w =
       generateGroqResponse rt p msgs ts (orElse (systemPrompt (ai_config p)) (defaultSystemPrompt p)) w"
  by (simp add: generateResponse_def)

lemma groqAttempt_rejected:
  "create (chatRequest cfg formatted (offeredTools ts)) w = (Inl err, w1) \<Longrightarrow>
     groqAttempt rt cfg create formatted ts w = (Inl err, w1)"
  by (simp add: groqAttempt_def)

lemma groq_v1_propagates:
  "groq p = Some create \<Longrightarrow>
   create (chatRequest (ai_config p) (chatFormattedMessages rt systemMessage msgs) (offeredTools_v1 ts)) w
     = (Inl err, w1) \<Longrightarrow>
     generateGroqResponse_v1 rt p msgs ts systemMessage w = (Inl err, w1)"
  by (simp add: generateGroqResponse_v1_def)

text \<open>
  C4. In the Groq variant, when the request that carries the tool definitions is rejected
  with status 400 and code \<^verbatim>\<open>tool_use_failed\<close>, \<^verbatim>\<open>generateResponse\<close> sends the same
  request once more with the tool definitions left out, and nothing after it but clock
  reads: if that retry is answered, the result is an assistant message without tool
  requests whose content is the answer's content, or the fixed apology when that is
  empty; if the retry is rejected, its rejection propagates. Any other rejection of the
  first request propagates unchanged.
\<close>

theorem groq_retries_without_tools:
  assumes "provider (ai_config p) = Groq" and "groq p = Some create"
    and "formatted = chatFormattedMessages rt (orElse (systemPrompt (ai_config p)) (defaultSystemPrompt p)) msgs"
    and "create (chatRequest (ai_config p) formatted (offeredTools ts)) w = (Inl err, w1)"
  shows "(toolUseFailed err \<longrightarrow>
            (\<forall>answer w2 fallbackMessage others.
               create ((chatRequest (ai_config p) formatted (offeredTools ts))\<lparr>req_tools := None\<rparr>) w1
                 = (Inr answer, w2)
               \<and> g_choices answer = fallbackMessage # others \<longrightarrow>
               generateResponse rt p msgs ts w =
                 (Inr \<lparr>msg_id = fst (idOr rt (g_completion_id answer) ''groq-'' w2),
                       role = Assistant,
                       content = orElse (g_content fallbackMessage) groqApology,
                       timestamp = fst (now rt (snd (idOr rt (g_completion_id answer) ''groq-'' w2))),
                       toolCalls = None, toolResults = None\<rparr>,
                  snd (now rt (snd (idOr rt (g_completion_id answer) ''groq-'' w2)))))
            \<and> (\<forall>err2 w2.
                 create ((chatRequest (ai_config p) formatted (offeredTools ts))\<lparr>req_tools := None\<rparr>) w1
                   = (Inl err2, w2) \<longrightarrow>
                 generateResponse rt p msgs ts w = (Inl err2, w2)))
     \<and> (\<not> toolUseFailed err \<longrightarrow> generateResponse rt p msgs ts w = (Inl err, w1))"
proof -
  have retry: "(chatRequest (ai_config p) formatted (offeredTools ts))\<lparr>req_tools := None\<rparr>
      = chatRequest (ai_config p) formatted None"
    by (simp add: chatRequest_def)
  have attempt: "groqAttempt rt (ai_config p) create formatted ts w = (Inl err, w1)"
    using assms(4) by (rule groqAttempt_rejected)
  have gen: "generateResponse rt p msgs ts w =
      (if toolUseFailed err then groqFallback rt (ai_config p) create formatted w1 else (Inl err, w1))"
    using assms(1,2) attempt
    by (simp add: generateResponse_Groq generateGroqResponse_def assms(3) [symmetric])
  show ?thesis
    unfolding retry gen
    by (auto simp: groqFallback_def split_beta)
qed

theorem groq_retries_without_tools_witness:
  "toolUseFailed \<lparr>status = Some 400, code = Some ''tool_use_failed'',
                  message = ''Failed to call a function. Please adjust your prompt.''\<rparr>
   \<and> generateResponse demoRuntime groqProvider [askMsg] [listFilesTool] 0 =
       (Inr \<lparr>msg_id = ''chatcmpl-2'', role = Assistant, content = groqApology, timestamp = 2,
             toolCalls = None, toolResults = None\<rparr>, 3)"
proof -
  let ?err = "\<lparr>status = Some 400, code = Some ''tool_use_failed'',
               message = ''Failed to call a function. Please adjust your prompt.''\<rparr>"
  let ?formatted = "chatFormattedMessages demoRuntime
                      (orElse (systemPrompt (ai_config groqProvider)) (defaultSystemPrompt groqProvider))
                      [askMsg]"
  let ?answer = "\<lparr>g_completion_id = Some ''chatcmpl-2'',
                  g_choices = [\<lparr>g_content = None, g_tool_calls = None\<rparr>]\<rparr>"
  have a1: "provider (ai_config groqProvider) = Groq"
    by (simp add: groqProvider_def baseProvider_def demoConfig_def)
  have a2: "groq groqProvider = Some failingGroq"
    by (simp add: groqProvider_def)
  have a4: "failingGroq (chatRequest (ai_config groqProvider) ?formatted (offeredTools [listFilesTool])) 0
      = (Inl ?err, 1)"
    by (simp add: failingGroq_def chatRequest_def offeredTools_def)
  have f: "toolUseFailed ?err"
    by (simp add: toolUseFailed_def)
  have r: "failingGroq ((chatRequest (ai_config groqProvider) ?formatted (offeredTools [listFilesTool]))
              \<lparr>req_tools := None\<rparr>) 1 = (Inr ?answer, 2)
           \<and> g_choices ?answer = \<lparr>g_content = None, g_tool_calls = None\<rparr> # []"
    by (simp add: failingGroq_def chatRequest_def)
  from groq_retries_without_tools [OF a1 a2 refl a4, THEN conjunct1, rule_format, OF f,
      THEN conjunct1, rule_format, OF r]
  have "generateResponse demoRuntime groqProvider [askMsg] [listFilesTool] 0 =
       (Inr \<lparr>msg_id = ''chatcmpl-2'', role = Assistant, content = groqApology, timestamp = 2,
             toolCalls = None, toolResults = None\<rparr>, 3)"
    by (simp add: idOr_def orElse_def demoRuntime_def)
  with f show ?thesis by blast
qed

lemma anthropic_messages_plain:
  "list_all (\<lambda>m. \<exists>s. a_content m = PlainText s) (anthropicFormattedMessages msgs)
   \<and> anthropicFormattedMessages (map (\<lambda>m. m\<lparr>msg_id := [], toolCalls := None, toolResults := None\<rparr>) msgs)
       = anthropicFormattedMessages msgs"
  by (simp add: anthropicFormattedMessages_def list_all_iff)

lemma chat_messages_keep_tools:
  "map tool_call_id (map (chatMessage rt) msgs)
     = map (\<lambda>m. if role m = ToolRole then Some (msg_id m) else None) msgs
   \<and> map tool_calls (map (chatMessage rt) msgs)
     = map (\<lambda>m. if role m = ToolRole then None
                  else map_option (map (wireToolCall rt)) (toolCalls m)) msgs"
  by (simp add: chatMessage_def split: option.splits)

text \<open>
  C5 fails on the Anthropic variant. For a history with an assistant message carrying a
  tool request and the tool-role message answering it, the Anthropic request holds three
  plain-text messages: the request is not sent as a \<^verbatim>\<open>tool_use\<close> block, the tool-role
  message goes out under the role \<^verbatim>\<open>user\<close> with no \<^verbatim>\<open>tool_use_id\<close>. The OpenAI-style
  request for the same history carries both the call and the correlating identifier.
\<close>

theorem anthropic_request_loses_tool_calls:
  "a_messages (anthropicRequest (ai_config anthropicProvider) ''system text'' toolHistory [listFilesTool])
     = [\<lparr>a_role = ''user'', a_content = PlainText ''list files in src''\<rparr>,
        \<lparr>a_role = ''assistant'', a_content = PlainText []\<rparr>,
        \<lparr>a_role = ''user'', a_content = PlainText ''a.ts''\<rparr>]
   \<and> fst (generateResponse demoRuntime anthropicProvider toolHistory [listFilesTool] 0)
       = Inr \<lparr>msg_id = ''msg_1'', role = Assistant, content = ''request with plain text only'',
              timestamp = 1, toolCalls = None, toolResults = None\<rparr>
   \<and> map tool_calls (chatFormattedMessages demoRuntime ''system text'' toolHistory)
       = [None, None,
          Some [\<lparr>wire_id = ''A'', wire_type = ''function'',
                 wire_function = \<lparr>fn_name = ''list_files'', fn_arguments = ''{}''\<rparr>\<rparr>],
          None]
   \<and> map tool_call_id (chatFormattedMessages demoRuntime ''system text'' toolHistory)
       = [None, None, None, Some ''A'']"
  by (simp add: anthropicRequest_def anthropicFormattedMessages_def toolHistory_def askMsg_def
      generateResponse_def generateAnthropicResponse_def anthropicProvider_def baseProvider_def
      demoConfig_def demoRuntime_def addBlock_def orElse_def offeredTools_def
      chatFormattedMessages_def chatMessage_def wireToolCall_def roleName_def)

lemma parseOpenAICalls_rejects:
  "list_ex (\<lambda>tc. isl (parse rt (oa_arguments (oa_function tc)))) tcs \<Longrightarrow>
     isl (parseOpenAICalls rt tcs)"
  by (induction tcs) (auto split: sum.splits)

lemma parseGroqCalls_drops:
  "length (fst (parseGroqCalls rt tcs w)) \<le> length tcs"
  by (induction tcs arbitrary: w) (auto simp: split_beta split: option.splits sum.splits intro: le_SucI)

text \<open>
  C6 fails on the OpenAI variant. For a response with two tool calls of which the second
  has malformed arguments, \<^verbatim>\<open>generateResponse\<close> rejects with the \<^verbatim>\<open>SyntaxError\<close> of
  \<^verbatim>\<open>JSON.parse\<close> and returns no message; the Groq variant, given the same two calls,
  returns the message with the well-formed call and drops the other.
\<close>

theorem openai_rejects_malformed_arguments:
  "generateResponse demoRuntime openaiProvider [askMsg] [listFilesTool] 0
     = (Inl (Error ''Unexpected end of JSON input''), 2)
   \<and> generateResponse demoRuntime groqTwin [askMsg] [listFilesTool] 0
     = (Inr \<lparr>msg_id = ''chatcmpl-1'', role = Assistant, content = [], timestamp = 1,
             toolCalls = Some [\<lparr>call_id = ''A'', call_name = ''list_files'', arguments = JObj []\<rparr>],
             toolResults = None\<rparr>, 2)"
  by (simp add: generateResponse_def generateOpenAIResponse_def generateGroqResponse_def
      groqAttempt_def openaiProvider_def groqTwin_def baseProvider_def demoConfig_def
      demoRuntime_def orElse_def idOr_def Error_def)

lemma role_fold_addBlock:
  "role (fold addBlock bs m) = role m"
  by (induction bs arbitrary: m) (simp_all add: addBlock_def split: ABlock.splits)

lemma groqAttempt_role:
  "groqAttempt rt cfg create formatted ts w = (Inr m, w') \<Longrightarrow> role m = Assistant"
  by (auto simp: groqAttempt_def split: prod.splits sum.splits list.splits option.splits)

lemma groqFallback_role:
  "groqFallback rt cfg create formatted w = (Inr m, w') \<Longrightarrow> role m = Assistant"
  by (auto simp: groqFallback_def split: prod.splits sum.splits list.splits)

lemma generateGroqResponse_role:
  "generateGroqResponse rt p msgs ts systemMessage w = (Inr m, w') \<Longrightarrow> role m = Assistant"
  by (auto simp: generateGroqResponse_def split: option.splits prod.splits sum.splits if_splits
      dest: groqAttempt_role groqFallback_role)

lemma generateResponse_role:
  assumes "generateResponse rt p msgs ts w = (Inr m, w')"
  shows "role m = Assistant"
proof (cases "provider (ai_config p)")
  case OpenAI
  with assms show ?thesis
    by (auto simp: generateResponse_def generateOpenAIResponse_def Let_def
        split: option.splits prod.splits sum.splits list.splits)
next
  case Anthropic
  with assms show ?thesis
    by (auto simp: generateResponse_def generateAnthropicResponse_def role_fold_addBlock
        split: option.splits prod.splits sum.splits)
next
  case Groq
  with assms show ?thesis
    by (auto simp: generateResponse_def dest: generateGroqResponse_role)
next
  case Ollama
  with assms show ?thesis
    by (auto simp: generateResponse_def generateOllamaResponse_def
        split: option.splits prod.splits sum.splits)
qed






section \<open>Claims about the file system tools\<close>

lemma read_file_denied:
  "property args ''filePath'' = Some (JStr filePath) \<Longrightarrow>
   \<not> withinWorkspace (cwd api w) (orElse (workspaceRoot ctx) (cwd api w)) filePath \<Longrightarrow>
     read_file_execute api args ctx w
       = (Inr (JStr (accessDenied (orElse (workspaceRoot ctx) (cwd api w)))), w)"
  by (auto simp: read_file_execute_def property_def Let_def)

lemma write_file_denied:
  "property args ''filePath'' = Some (JStr filePath) \<Longrightarrow>
   \<not> withinWorkspace (cwd api w) (orElse (workspaceRoot ctx) (cwd api w)) filePath \<Longrightarrow>
     write_file_execute api args ctx w
       = (Inr (JStr (accessDenied (orElse (workspaceRoot ctx) (cwd api w)))), w)"
  by (auto simp: write_file_execute_def property_def Let_def)

text \<open>
  C7 fails: the check is a string-prefix test. With the workspace root \<^verbatim>\<open>/workspace\<close>,
  \<^verbatim>\<open>read_file\<close> given \<^verbatim>\<open>/workspaceX/secret.txt\<close> stats and reads that file and returns its
  content, and \<^verbatim>\<open>write_file\<close> given \<^verbatim>\<open>../workspaceX/notes.txt\<close> creates the directory
  and writes the file; a path such as \<^verbatim>\<open>../etc/passwd\<close> is denied without any file
  system operation.
\<close>

theorem sibling_directory_passes_check:
  "execute (FileSystemTool demoFs) (JObj [(''filePath'', JStr ''/workspaceX/secret.txt'')]) demoContext []
     = (Inr (JStr (''File: /workspaceX/secret.txt'' @ [CHR 0x0A, CHR 0x0A] @ ''Content:''
                     @ [CHR 0x0A] @ ''top secret'')),
        [''stat /workspaceX/secret.txt'', ''readFile /workspaceX/secret.txt''])
   \<and> execute (WriteFileTool demoFs)
        (JObj [(''filePath'', JStr ''../workspaceX/notes.txt''), (''content'', JStr ''x'')]) demoContext []
     = (Inr (JStr (checkMark @ '' Successfully wrote to file: ../workspaceX/notes.txt'')),
        [''mkdir /workspaceX'', ''writeFile /workspaceX/notes.txt''])
   \<and> execute (FileSystemTool demoFs) (JObj [(''filePath'', JStr ''../etc/passwd'')]) demoContext []
     = (Inr (JStr (accessDenied ''/workspace'')), [])"
  by (simp add: FileSystemTool_def WriteFileTool_def read_file_execute_def write_file_execute_def
      demoFs_def demoContext_def orElse_def property_def withinWorkspace_def fullPathOf_def
      resolve_def join_def normalize_def normalizeString_def isAbsolute_def dirname_def
      accessDenied_def Let_def)

end
